theory Spec2Isabelle
  imports Main "HOL-Library.Sublist"
begin

section \<open>Strings and numbers of the host language\<close>

text \<open>
  Source strings are modelled as \<^typ>\<open>string\<close> restricted to ASCII text: \<open>toLowerCase\<close>
  maps the letters A to Z and leaves every other character alone, and \<open>trim\<close> strips the
  ASCII white space of the language (tab, line feed, vertical tab, form feed, carriage
  return, space). Numbers that the services handle (ids, pages, years) are integers.
\<close>

definition toLowerCaseChar :: "char \<Rightarrow> char" where
  "toLowerCaseChar c =
     (case map_of (zip ''ABCDEFGHIJKLMNOPQRSTUVWXYZ'' ''abcdefghijklmnopqrstuvwxyz'') c of
        None \<Rightarrow> c
      | Some l \<Rightarrow> l)"

definition toLowerCase :: "string \<Rightarrow> string" where
  "toLowerCase s = map toLowerCaseChar s"

definition isWhiteSpace :: "char \<Rightarrow> bool" where
  "isWhiteSpace c \<longleftrightarrow> of_char c \<in> {9, 10, 11, 12, 13, 32 :: nat}"

definition trim :: "string \<Rightarrow> string" where
  "trim s = rev (dropWhile isWhiteSpace (rev (dropWhile isWhiteSpace s)))"

text \<open>The key used by both lookups: \<open>k.toLowerCase().trim()\<close>.\<close>

definition normalizeKey :: "string \<Rightarrow> string" where
  "normalizeKey k = trim (toLowerCase k)"

text \<open>
  \<open>[...new Set(xs)]\<close>: the elements of \<open>xs\<close> in order of first occurrence, each once.
\<close>

fun insertUnique :: "'a list \<Rightarrow> 'a list \<Rightarrow> 'a list" where
  "insertUnique seen [] = seen"
| "insertUnique seen (x # xs) =
     (if x \<in> set seen then insertUnique seen xs else insertUnique (seen @ [x]) xs)"

definition uniqueValues :: "'a list \<Rightarrow> 'a list" where
  "uniqueValues xs = insertUnique [] xs"

text \<open>Decimal rendering of an integer, as a template literal or \<open>join\<close> prints it.\<close>

definition digitChar :: "nat \<Rightarrow> char" where
  "digitChar d = ''0123456789'' ! (d mod 10)"

fun digitsOf :: "nat \<Rightarrow> string" where
  "digitsOf n = (if n < 10 then [digitChar n] else digitsOf (n div 10) @ [digitChar (n mod 10)])"

declare digitsOf.simps [simp del]

definition numberToString :: "int \<Rightarrow> string" where
  "numberToString i = (if i < 0 then CHR ''-'' # digitsOf (nat (- i)) else digitsOf (nat i))"

fun joinWith :: "string \<Rightarrow> string list \<Rightarrow> string" where
  "joinWith sep [] = []"
| "joinWith sep [x] = x"
| "joinWith sep (x # y # ys) = x @ sep @ joinWith sep (y # ys)"

text \<open>
  \<open>encodeURIComponent\<close>: letters, digits and \<open>- _ . ! ~ * ' ( )\<close> stay, every other
  character becomes \<open>%XX\<close> with upper-case hexadecimal digits.
\<close>

definition uriUnreserved :: "char \<Rightarrow> bool" where
  "uriUnreserved c \<longleftrightarrow>
     c \<in> set (''ABCDEFGHIJKLMNOPQRSTUVWXYZabcdefghijklmnopqrstuvwxyz0123456789'' @
              [CHR ''-'', CHR ''_'', CHR ''.'', CHR ''!'', CHR ''~'', CHR ''*'', CHR 0x27,
               CHR ''('', CHR '')''])"

definition hexDigit :: "nat \<Rightarrow> char" where
  "hexDigit d = ''0123456789ABCDEF'' ! (d mod 16)"

definition encodeChar :: "char \<Rightarrow> string" where
  "encodeChar c =
     (if uriUnreserved c then [c]
      else [CHR ''%'', hexDigit (of_char c div 16), hexDigit (of_char c mod 16)])"

definition encodeURIComponent :: "string \<Rightarrow> string" where
  "encodeURIComponent s = concat (map encodeChar s)"

section \<open>Data of the metadata service (services/tmdbService.ts)\<close>

datatype MediaType = Movie | Tv

definition mediaTypeString :: "MediaType \<Rightarrow> string" where
  "mediaTypeString t = (case t of Movie \<Rightarrow> ''movie'' | Tv \<Rightarrow> ''tv'')"

text \<open>
  Modelled from the spec: the type declarations of \<open>types.ts\<close> (\<open>TMDbResult\<close>,
  \<open>TMDbResponse\<close>, \<open>TMDbKeywordResponse\<close>, \<open>Genre\<close>, \<open>SortOption\<close>), a file that is not
  among the sources. The records carry the fields that the service functions read: a
  result's \<open>media_type\<close> is the string the upstream reply holds (the multi search also
  returns people), its \<open>poster_path\<close> is absent (\<open>None\<close>, for \<open>null\<close>) or a string. A sort
  option is the string the \<open>switch\<close> compares.
\<close>

record TMDbResult =
  result_id :: int
  media_type :: string
  poster_path :: "string option"

record TMDbResponse =
  results :: "TMDbResult list"

record Keyword =
  keyword_id :: int

record TMDbKeywordResponse =
  keyword_results :: "Keyword list"

record Genre =
  genre_id :: int
  genre_name :: string

record GenreListResponse =
  genres :: "Genre list"

type_synonym SortOption = string

text \<open>
  The two constants of \<open>constants.ts\<close> (not among the sources) are parameters.
\<close>

record tmdb_config =
  TMDB_API_BASE_URL :: string
  TMDB_API_KEY :: string

subsection \<open>The network\<close>

text \<open>
  What \<open>fetch\<close> and \<open>response.json()\<close> do for one request: \<open>fetch\<close> rejects, or a
  response arrives with its \<open>ok\<close> flag, its status and its body, which is \<open>None\<close> when
  it does not parse as JSON. The server is a function of the number of requests issued
  so far and of the URL, so that replies may change over time.
\<close>

datatype 'a fetch_outcome = FetchRejected | HttpResponse bool nat "'a option"

type_synonym 'a server = "nat \<Rightarrow> string \<Rightarrow> 'a fetch_outcome"

text \<open>
  The errors thrown in the two services: \<open>FailedToFetch endpoint\<close> is the error of the
  \<open>catch\<close> block of \<open>fetchFromTMDb\<close>; \<open>JsonSyntaxError\<close> is the rejection of
  \<open>response.json()\<close> or the exception of \<open>JSON.parse\<close>; \<open>TypeError\<close> is a property read
  on \<open>undefined\<close>; \<open>ProviderRejected\<close> is a rejected call to the text-generation provider;
  \<open>OpenRouterApiError status\<close>, \<open>EmptyAIResponse\<close> and \<open>EmptyChatResponse\<close> are the errors
  thrown inside the \<open>try\<close> blocks of the AI service; \<open>ChatResponseFailed\<close> is the error
  thrown by the \<open>catch\<close> block of the chat function.
\<close>

datatype error =
    FailedToFetch string
  | JsonSyntaxError
  | TypeError
  | ProviderRejected
  | OpenRouterApiError nat
  | EmptyAIResponse
  | EmptyChatResponse
  | ChatResponseFailed

text \<open>
  The module state: the two caches, and the log of the URLs handed to \<open>fetch\<close>,
  in the order of the calls (the observable network traffic).
\<close>

record tmdb_state =
  keywordCache :: "string \<rightharpoonup> int"
  genreCache :: "MediaType \<Rightarrow> Genre list"
  requests :: "string list"

definition initial_state :: tmdb_state where
  "initial_state = \<lparr> keywordCache = Map.empty, genreCache = (\<lambda>_. []), requests = [] \<rparr>"

text \<open>
  \<open>fetchFromTMDb\<close>. A rejected \<open>fetch\<close> and a response that is not \<open>ok\<close> both end in
  the \<open>catch\<close> block, which throws the error naming the endpoint. The promise of
  \<open>response.json()\<close> is returned without \<open>await\<close>, so its rejection leaves the function
  as it is, not through the \<open>catch\<close> block.
\<close>

definition finalUrl :: "tmdb_config \<Rightarrow> string \<Rightarrow> string option \<Rightarrow> string" where
  "finalUrl cfg endpoint language =
     (let url = TMDB_API_BASE_URL cfg @ ''/'' @ endpoint;
          separator = (if CHR ''?'' \<in> set url then ''&'' else ''?'')
      in url @ separator @ ''api_key='' @ TMDB_API_KEY cfg @ ''&language='' @
         (case language of None \<Rightarrow> ''en-US'' | Some l \<Rightarrow> l))"

definition fetchFromTMDb ::
  "tmdb_config \<Rightarrow> 'a server \<Rightarrow> tmdb_state \<Rightarrow> string \<Rightarrow> string option \<Rightarrow> tmdb_state \<times> (error + 'a)" where
  "fetchFromTMDb cfg srv st endpoint language =
     (let url = finalUrl cfg endpoint language;
          st' = st\<lparr> requests := requests st @ [url] \<rparr>
      in case srv (length (requests st)) url of
           FetchRejected \<Rightarrow> (st', Inl (FailedToFetch endpoint))
         | HttpResponse ok status body \<Rightarrow>
             if \<not> ok then (st', Inl (FailedToFetch endpoint))
             else (case body of
                     None \<Rightarrow> (st', Inl JsonSyntaxError)
                   | Some d \<Rightarrow> (st', Inr d)))"

definition getSortByValue :: "SortOption \<Rightarrow> MediaType \<Rightarrow> string" where
  "getSortByValue sortOption mediaType =
     (if sortOption = ''release_date'' then
        (if mediaType = Movie then ''primary_release_date.desc'' else ''first_air_date.desc'')
      else if sortOption = ''rating'' then ''vote_average.desc''
      else ''popularity.desc'')"

text \<open>Truthiness of an optional string: neither \<open>null\<close> nor the empty string.\<close>

definition truthy :: "string option \<Rightarrow> bool" where
  "truthy p = (case p of None \<Rightarrow> False | Some s \<Rightarrow> s \<noteq> [])"

definition keepResult :: "TMDbResult \<Rightarrow> bool" where
  "keepResult result \<longleftrightarrow>
     (media_type result = ''movie'' \<or> media_type result = ''tv'') \<and> truthy (poster_path result)"

text \<open>A parameter with a default (\<open>page: number = 1\<close>) is an option; \<open>None\<close> takes the default.\<close>

definition pageOrDefault :: "int option \<Rightarrow> int" where
  "pageOrDefault page = (case page of None \<Rightarrow> 1 | Some p \<Rightarrow> p)"

definition searchMedia ::
  "tmdb_config \<Rightarrow> TMDbResponse server \<Rightarrow> tmdb_state \<Rightarrow> string \<Rightarrow> int option \<Rightarrow> string
     \<Rightarrow> tmdb_state \<times> (error + TMDbResult list)" where
  "searchMedia cfg srv st query page language =
     (if query = [] then (st, Inr [])
      else
        case fetchFromTMDb cfg srv st
               (''search/multi?query='' @ encodeURIComponent query @ ''&page='' @
                numberToString (pageOrDefault page) @ ''&include_adult=false'')
               (Some language) of
          (st', Inl e) \<Rightarrow> (st', Inl e)
        | (st', Inr data) \<Rightarrow> (st', Inr (filter keepResult (results data))))"

definition getTrending ::
  "tmdb_config \<Rightarrow> TMDbResponse server \<Rightarrow> tmdb_state \<Rightarrow> int option \<Rightarrow> string
     \<Rightarrow> tmdb_state \<times> (error + TMDbResult list)" where
  "getTrending cfg srv st page language =
     (case fetchFromTMDb cfg srv st
             (''trending/all/week?page='' @ numberToString (pageOrDefault page)) (Some language) of
        (st', Inl e) \<Rightarrow> (st', Inl e)
      | (st', Inr data) \<Rightarrow> (st', Inr (filter keepResult (results data))))"

subsection \<open>Keyword lookup\<close>

definition uniqueKeywords :: "string list \<Rightarrow> string list" where
  "uniqueKeywords keywords = uniqueValues (map normalizeKey keywords)"

text \<open>
  The loop over \<open>uniqueKeywords\<close>: an id is pushed for a key the cache has, the key is
  pushed on \<open>keywordsToFetch\<close> otherwise.
\<close>

fun partitionCached ::
  "(string \<rightharpoonup> int) \<Rightarrow> string list \<Rightarrow> int list \<times> string list \<Rightarrow> int list \<times> string list" where
  "partitionCached cache [] acc = acc"
| "partitionCached cache (keyword # rest) (cachedIds, keywordsToFetch) =
     (case cache keyword of
        Some i \<Rightarrow> partitionCached cache rest (cachedIds @ [i], keywordsToFetch)
      | None \<Rightarrow> partitionCached cache rest (cachedIds, keywordsToFetch @ [keyword]))"

definition cachedIdsOf :: "tmdb_state \<Rightarrow> string list \<Rightarrow> int list" where
  "cachedIdsOf st keywords = fst (partitionCached (keywordCache st) (uniqueKeywords keywords) ([], []))"

definition keywordsToFetch :: "tmdb_state \<Rightarrow> string list \<Rightarrow> string list" where
  "keywordsToFetch st keywords = snd (partitionCached (keywordCache st) (uniqueKeywords keywords) ([], []))"

definition keywordEndpoint :: "string \<Rightarrow> string" where
  "keywordEndpoint keyword = ''search/keyword?query='' @ encodeURIComponent keyword @ ''&page=1''"

text \<open>
  \<open>keywordsToFetch.map(keyword => fetchFromTMDb(...))\<close> hands every URL to \<open>fetch\<close> in
  list order before any reply is awaited. \<open>Promise.all\<close> gives the replies in list
  order when all succeed and rejects when one does; which rejection it reports when
  several fail depends on timing, and the model takes the first in list order.
\<close>

fun fetchAll ::
  "tmdb_config \<Rightarrow> 'a server \<Rightarrow> tmdb_state \<Rightarrow> string list \<Rightarrow> string option
     \<Rightarrow> tmdb_state \<times> (error + 'a) list" where
  "fetchAll cfg srv st [] language = (st, [])"
| "fetchAll cfg srv st (endpoint # rest) language =
     (case fetchFromTMDb cfg srv st endpoint language of
        (st1, r) \<Rightarrow> (case fetchAll cfg srv st1 rest language of (st2, rs) \<Rightarrow> (st2, r # rs)))"

fun promiseAll :: "(error + 'a) list \<Rightarrow> error + 'a list" where
  "promiseAll [] = Inr []"
| "promiseAll (Inl e # rs) = Inl e"
| "promiseAll (Inr v # rs) = (case promiseAll rs of Inl e \<Rightarrow> Inl e | Inr vs \<Rightarrow> Inr (v # vs))"

definition keywordOutcomes ::
  "tmdb_config \<Rightarrow> TMDbKeywordResponse server \<Rightarrow> tmdb_state \<Rightarrow> string list \<Rightarrow> string
     \<Rightarrow> tmdb_state \<times> (error + TMDbKeywordResponse) list" where
  "keywordOutcomes cfg srv st keywords language =
     fetchAll cfg srv st (map keywordEndpoint (keywordsToFetch st keywords)) (Some language)"

text \<open>
  \<open>keywordResponses.forEach((res, index) => ...)\<close>: a reply with a result pushes the id of
  the first result and stores it under \<open>keywordsToFetch[index]\<close>; an empty reply does
  neither.
\<close>

fun storeResponses ::
  "(TMDbKeywordResponse \<times> string) list \<Rightarrow> (string \<rightharpoonup> int) \<times> int list
     \<Rightarrow> (string \<rightharpoonup> int) \<times> int list" where
  "storeResponses [] acc = acc"
| "storeResponses ((res, originalKeyword) # rest) (cache, cachedIds) =
     (case keyword_results res of
        [] \<Rightarrow> storeResponses rest (cache, cachedIds)
      | k # _ \<Rightarrow>
          storeResponses rest (cache(originalKeyword \<mapsto> keyword_id k), cachedIds @ [keyword_id k]))"

definition getKeywordIds ::
  "tmdb_config \<Rightarrow> TMDbKeywordResponse server \<Rightarrow> tmdb_state \<Rightarrow> string list \<Rightarrow> string
     \<Rightarrow> tmdb_state \<times> (error + int list)" where
  "getKeywordIds cfg srv st keywords language =
     (if keywords = [] then (st, Inr [])
      else if keywordsToFetch st keywords \<noteq> [] then
        (case keywordOutcomes cfg srv st keywords language of
           (st1, outcomes) \<Rightarrow>
             (case promiseAll outcomes of
                Inl e \<Rightarrow> (st1, Inl e)
              | Inr keywordResponses \<Rightarrow>
                  (case storeResponses (zip keywordResponses (keywordsToFetch st keywords))
                          (keywordCache st1, cachedIdsOf st keywords) of
                     (cache', ids) \<Rightarrow> (st1\<lparr> keywordCache := cache' \<rparr>, Inr (uniqueValues ids)))))
      else (st, Inr (uniqueValues (cachedIdsOf st keywords))))"

subsection \<open>Genre lookup\<close>

definition getGenreList ::
  "tmdb_config \<Rightarrow> GenreListResponse server \<Rightarrow> tmdb_state \<Rightarrow> MediaType \<Rightarrow> string
     \<Rightarrow> tmdb_state \<times> (error + Genre list)" where
  "getGenreList cfg srv st type language =
     (if genreCache st type \<noteq> [] then (st, Inr (genreCache st type))
      else
        case fetchFromTMDb cfg srv st (''genre/'' @ mediaTypeString type @ ''/list'') (Some language) of
          (st1, Inl e) \<Rightarrow> (st1, Inl e)
        | (st1, Inr data) \<Rightarrow>
            (st1\<lparr> genreCache := (genreCache st1)(type := genres data) \<rparr>, Inr (genres data)))"

definition getGenreIds ::
  "tmdb_config \<Rightarrow> GenreListResponse server \<Rightarrow> tmdb_state \<Rightarrow> string list \<Rightarrow> MediaType \<Rightarrow> string
     \<Rightarrow> tmdb_state \<times> (error + int list)" where
  "getGenreIds cfg srv st genreNames type language =
     (if genreNames = [] then (st, Inr [])
      else
        case getGenreList cfg srv st type language of
          (st1, Inl e) \<Rightarrow> (st1, Inl e)
        | (st1, Inr genreList) \<Rightarrow>
            (let lowerCaseGenreNames = map normalizeKey genreNames
             in (st1, Inr (map genre_id
                            (filter (\<lambda>genre. normalizeKey (genre_name genre) \<in> set lowerCaseGenreNames)
                               genreList)))))"

subsection \<open>Discovery\<close>

definition sortOrDefault :: "SortOption option \<Rightarrow> SortOption" where
  "sortOrDefault sortOption = (case sortOption of None \<Rightarrow> ''popularity'' | Some s \<Rightarrow> s)"

text \<open>\<open>!year\<close> holds for an absent year and for the year 0; \<open>if (year)\<close> is its negation.\<close>

definition noYear :: "int option \<Rightarrow> bool" where
  "noYear year = (case year of None \<Rightarrow> True | Some y \<Rightarrow> y = 0)"

definition discoverEndpoint ::
  "MediaType \<Rightarrow> int list \<Rightarrow> int list \<Rightarrow> int option \<Rightarrow> SortOption option \<Rightarrow> int option \<Rightarrow> string" where
  "discoverEndpoint type genreIds keywordIds page sortOption year =
     (let sortBy = getSortByValue (sortOrDefault sortOption) type;
          endpoint0 = ''discover/'' @ mediaTypeString type @ ''?sort_by='' @ sortBy @ ''&page='' @
                      numberToString (pageOrDefault page) @ ''&include_adult=false'';
          endpoint1 = (if genreIds \<noteq> []
                       then endpoint0 @ ''&with_genres='' @ joinWith '','' (map numberToString genreIds)
                       else endpoint0);
          endpoint2 = (if keywordIds \<noteq> []
                       then endpoint1 @ ''&with_keywords='' @ joinWith '','' (map numberToString keywordIds)
                       else endpoint1)
      in case year of
           None \<Rightarrow> endpoint2
         | Some y \<Rightarrow>
             if y = 0 then endpoint2
             else endpoint2 @ ''&'' @
                  (if type = Movie then ''primary_release_year'' else ''first_air_date_year'') @
                  ''='' @ numberToString y)"

definition discoverMedia ::
  "tmdb_config \<Rightarrow> TMDbResponse server \<Rightarrow> tmdb_state \<Rightarrow> MediaType \<Rightarrow> int list \<Rightarrow> int list
     \<Rightarrow> int option \<Rightarrow> SortOption option \<Rightarrow> string \<Rightarrow> int option
     \<Rightarrow> tmdb_state \<times> (error + TMDbResult list)" where
  "discoverMedia cfg srv st type genreIds keywordIds page sortOption language year =
     (if genreIds = [] \<and> keywordIds = [] \<and> noYear year then (st, Inr [])
      else
        case fetchFromTMDb cfg srv st
               (discoverEndpoint type genreIds keywordIds page sortOption year) (Some language) of
          (st', Inl e) \<Rightarrow> (st', Inl e)
        | (st', Inr data) \<Rightarrow>
            (st', Inr (map (\<lambda>r. r\<lparr> media_type := mediaTypeString type \<rparr>) (results data))))"

section \<open>The AI service\<close>

text \<open>
  Modelled from the spec: the type declarations \<open>AISearchData\<close> and \<open>ChatMessage\<close> of
  \<open>types.ts\<close>, a file that is not among the sources; the fields are those of the response
  schema and of the accesses in the code. The constants of \<open>constants.ts\<close> and the two
  long instruction texts are parameters. \<open>JSON.parse\<close> is a parameter as well: \<open>None\<close> is
  its \<open>SyntaxError\<close>.
\<close>

record AISearchData =
  search_query :: "string option"
  ai_media_type :: "string option"
  ai_genres :: "string list option"
  ai_keywords :: "string list option"
  ai_year :: "int option"

record ChatMessage =
  role :: string
  content :: string

type_synonym json_parser = "string \<Rightarrow> AISearchData option"

record ai_config =
  OPENROUTER_API_BASE_URL :: string
  OPENROUTER_API_KEY :: string
  OPENROUTER_CHAT_MODEL :: string
  DISCOVER_SEARCH_INSTRUCTION :: string
  CHAT_SYSTEM_INSTRUCTION :: string

definition rawQueryFallback :: "string \<Rightarrow> AISearchData" where
  "rawQueryFallback query =
     \<lparr> search_query = Some query, ai_media_type = None, ai_genres = None, ai_keywords = None,
       ai_year = None \<rparr>"

definition userQueryLine :: "string \<Rightarrow> string" where
  "userQueryLine query = ''User Query: '' @ [CHR 0x22] @ query @ [CHR 0x22]"

subsection \<open>services/aiService.ts: the HTTP integration\<close>

record chat_request =
  req_url :: string
  req_authorization :: string
  req_model :: string
  req_messages :: "(string \<times> string) list"
  req_json_object :: bool

text \<open>
  The reply body \<open>data\<close>, as far as \<open>data.choices[0]?.message?.content\<close> reads it:
  \<open>choices\<close> may be missing (the index then throws), the first choice, its message and
  the content may each be missing.
\<close>

datatype or_message = Message "string option"
datatype or_choice = Choice "or_message option"
datatype or_data = Completion "or_choice list option"

type_synonym or_provider = "chat_request \<Rightarrow> or_data fetch_outcome"

definition firstContent :: "or_data \<Rightarrow> error + string option" where
  "firstContent data =
     (case data of
        Completion None \<Rightarrow> Inl TypeError
      | Completion (Some []) \<Rightarrow> Inr None
      | Completion (Some (Choice None # _)) \<Rightarrow> Inr None
      | Completion (Some (Choice (Some (Message c)) # _)) \<Rightarrow> Inr c)"

definition searchRequest :: "ai_config \<Rightarrow> string \<Rightarrow> chat_request" where
  "searchRequest cfg query =
     \<lparr> req_url = OPENROUTER_API_BASE_URL cfg @ ''/chat/completions'',
       req_authorization = ''Bearer '' @ OPENROUTER_API_KEY cfg,
       req_model = OPENROUTER_CHAT_MODEL cfg,
       req_messages = [(''system'', DISCOVER_SEARCH_INSTRUCTION cfg), (''user'', userQueryLine query)],
       req_json_object = True \<rparr>"

text \<open>
  The \<open>try\<close> block of \<open>getSearchTermsFromAI\<close>; \<open>Inl\<close> is what it throws. An empty
  reply is a content that is missing or the empty string (\<open>!jsonString\<close>).
\<close>

definition searchAttempt :: "ai_config \<Rightarrow> json_parser \<Rightarrow> or_provider \<Rightarrow> string \<Rightarrow> error + AISearchData" where
  "searchAttempt cfg parse provider query =
     (case provider (searchRequest cfg query) of
        FetchRejected \<Rightarrow> Inl ProviderRejected
      | HttpResponse ok status body \<Rightarrow>
          if \<not> ok then Inl (OpenRouterApiError status)
          else (case body of
                  None \<Rightarrow> Inl JsonSyntaxError
                | Some data \<Rightarrow>
                    (case firstContent data of
                       Inl e \<Rightarrow> Inl e
                     | Inr None \<Rightarrow> Inl EmptyAIResponse
                     | Inr (Some jsonString) \<Rightarrow>
                         if jsonString = [] then Inl EmptyAIResponse
                         else (case parse jsonString of
                                 None \<Rightarrow> Inl JsonSyntaxError
                               | Some v \<Rightarrow> Inr v))))"

text \<open>The function with its \<open>catch\<close> block, which returns the fallback object.\<close>

definition getSearchTermsFromAI :: "ai_config \<Rightarrow> json_parser \<Rightarrow> or_provider \<Rightarrow> string \<Rightarrow> error + AISearchData" where
  "getSearchTermsFromAI cfg parse provider query =
     (case searchAttempt cfg parse provider query of
        Inl e \<Rightarrow> Inr (rawQueryFallback query)
      | Inr v \<Rightarrow> Inr v)"

definition chatMessages :: "ChatMessage list \<Rightarrow> (string \<times> string) list" where
  "chatMessages history =
     map (\<lambda>msg. (if role msg = ''ai'' then ''assistant'' else ''user'', content msg))
       (filter (\<lambda>msg. role msg \<noteq> ''error'') history)"

definition chatRequest :: "ai_config \<Rightarrow> ChatMessage list \<Rightarrow> chat_request" where
  "chatRequest cfg history =
     \<lparr> req_url = OPENROUTER_API_BASE_URL cfg @ ''/chat/completions'',
       req_authorization = ''Bearer '' @ OPENROUTER_API_KEY cfg,
       req_model = OPENROUTER_CHAT_MODEL cfg,
       req_messages = (''system'', CHAT_SYSTEM_INSTRUCTION cfg) # chatMessages history,
       req_json_object = False \<rparr>"

definition chatAttempt :: "ai_config \<Rightarrow> or_provider \<Rightarrow> ChatMessage list \<Rightarrow> error + string" where
  "chatAttempt cfg provider history =
     (case provider (chatRequest cfg history) of
        FetchRejected \<Rightarrow> Inl ProviderRejected
      | HttpResponse ok status body \<Rightarrow>
          if \<not> ok then Inl (OpenRouterApiError status)
          else (case body of
                  None \<Rightarrow> Inl JsonSyntaxError
                | Some data \<Rightarrow>
                    (case firstContent data of
                       Inl e \<Rightarrow> Inl e
                     | Inr None \<Rightarrow> Inl EmptyChatResponse
                     | Inr (Some c) \<Rightarrow> if c = [] then Inl EmptyChatResponse else Inr c)))"

definition getChatResponseFromAI :: "ai_config \<Rightarrow> or_provider \<Rightarrow> ChatMessage list \<Rightarrow> error + string" where
  "getChatResponseFromAI cfg provider history =
     (case chatAttempt cfg provider history of
        Inl e \<Rightarrow> Inl ChatResponseFailed
      | Inr c \<Rightarrow> Inr c)"

subsection \<open>The SDK integration (part 001 of the unnamed sources)\<close>

text \<open>
  \<open>ai.models.generateContent\<close> rejects, or gives a response whose \<open>text\<close> is a string or
  \<open>undefined\<close>. A request carries the model, the contents (a string, or the turns of a
  conversation as pairs of role and text), the system instruction and whether the JSON
  response schema is set.
\<close>

datatype sdk_contents = Prompt string | Turns "(string \<times> string) list"

record sdk_request =
  sdk_model :: string
  sdk_contents :: sdk_contents
  sdk_systemInstruction :: "string option"
  sdk_json_schema :: bool

datatype sdk_outcome = GenerateRejected | GenerateResponse "string option"

type_synonym sdk_provider = "sdk_request \<Rightarrow> sdk_outcome"

definition searchRequest_sdk :: "ai_config \<Rightarrow> string \<Rightarrow> sdk_request" where
  "searchRequest_sdk cfg query =
     \<lparr> sdk_model = ''gemini-2.5-flash'', sdk_contents = Prompt (userQueryLine query),
       sdk_systemInstruction = Some (DISCOVER_SEARCH_INSTRUCTION cfg), sdk_json_schema = True \<rparr>"

definition searchAttempt_sdk :: "ai_config \<Rightarrow> json_parser \<Rightarrow> sdk_provider \<Rightarrow> string \<Rightarrow> error + AISearchData" where
  "searchAttempt_sdk cfg parse provider query =
     (case provider (searchRequest_sdk cfg query) of
        GenerateRejected \<Rightarrow> Inl ProviderRejected
      | GenerateResponse None \<Rightarrow> Inl EmptyAIResponse
      | GenerateResponse (Some jsonString) \<Rightarrow>
          if jsonString = [] then Inl EmptyAIResponse
          else (case parse jsonString of
                  None \<Rightarrow> Inl JsonSyntaxError
                | Some v \<Rightarrow> Inr v))"

definition getSearchTermsFromAI_sdk :: "ai_config \<Rightarrow> json_parser \<Rightarrow> sdk_provider \<Rightarrow> string \<Rightarrow> error + AISearchData" where
  "getSearchTermsFromAI_sdk cfg parse provider query =
     (case searchAttempt_sdk cfg parse provider query of
        Inl e \<Rightarrow> Inr (rawQueryFallback query)
      | Inr v \<Rightarrow> Inr v)"

definition chatContents_sdk :: "ChatMessage list \<Rightarrow> (string \<times> string) list" where
  "chatContents_sdk history =
     map (\<lambda>msg. (if role msg = ''ai'' then ''model'' else ''user'', content msg))
       (filter (\<lambda>msg. role msg \<noteq> ''error'') history)"

definition chatRequest_sdk :: "ai_config \<Rightarrow> ChatMessage list \<Rightarrow> sdk_request" where
  "chatRequest_sdk cfg history =
     \<lparr> sdk_model = ''gemini-2.5-flash'', sdk_contents = Turns (chatContents_sdk history),
       sdk_systemInstruction = Some (CHAT_SYSTEM_INSTRUCTION cfg), sdk_json_schema = False \<rparr>"

definition chatAttempt_sdk :: "ai_config \<Rightarrow> sdk_provider \<Rightarrow> ChatMessage list \<Rightarrow> error + string" where
  "chatAttempt_sdk cfg provider history =
     (case provider (chatRequest_sdk cfg history) of
        GenerateRejected \<Rightarrow> Inl ProviderRejected
      | GenerateResponse None \<Rightarrow> Inl EmptyChatResponse
      | GenerateResponse (Some c) \<Rightarrow> if c = [] then Inl EmptyChatResponse else Inr c)"

definition getChatResponseFromAI_sdk :: "ai_config \<Rightarrow> sdk_provider \<Rightarrow> ChatMessage list \<Rightarrow> error + string" where
  "getChatResponseFromAI_sdk cfg provider history =
     (case chatAttempt_sdk cfg provider history of
        Inl e \<Rightarrow> Inl ChatResponseFailed
      | Inr c \<Rightarrow> Inr c)"

section \<open>Sessions and what they leave on the network\<close>

text \<open>
  The keywords of a batch whose reply arrived with no result, in the order of the batch.
\<close>

fun unmatchedKeywords :: "(error + TMDbKeywordResponse) list \<Rightarrow> string list \<Rightarrow> string list" where
  "unmatchedKeywords (Inr r # outcomes) (k # ks) =
     (if keyword_results r = [] then k # unmatchedKeywords outcomes ks
      else unmatchedKeywords outcomes ks)"
| "unmatchedKeywords (Inl e # outcomes) (k # ks) = unmatchedKeywords outcomes ks"
| "unmatchedKeywords outcomes ks = []"

text \<open>
  A request of the log is a genre-list call for a category when its URL is the one
  \<open>getGenreList\<close> builds for that category, up to the language: the URL that
  \<open>fetchFromTMDb\<close> makes of the endpoint \<open>genre/<category>/list\<close> and the empty language
  is a prefix of it.
\<close>

definition isGenreListCall :: "tmdb_config \<Rightarrow> MediaType \<Rightarrow> string \<Rightarrow> bool" where
  "isGenreListCall cfg type url \<longleftrightarrow>
     prefix (finalUrl cfg (''genre/'' @ mediaTypeString type @ ''/list'') (Some [])) url"

definition genreListCalls :: "tmdb_config \<Rightarrow> MediaType \<Rightarrow> tmdb_state \<Rightarrow> string list" where
  "genreListCalls cfg type st = filter (isGenreListCall cfg type) (requests st)"

text \<open>
  A session is a sequence of calls of the exported functions, each run on the state the
  previous one left; the results go to the caller and only the state is threaded.
\<close>

datatype api_call =
    SearchMedia string "int option" string
  | GetTrending "int option" string
  | GetKeywordIds "string list" string
  | GetGenreIds "string list" MediaType string
  | DiscoverMedia MediaType "int list" "int list" "int option" "SortOption option" string "int option"

record servers =
  media_server :: "TMDbResponse server"
  keyword_server :: "TMDbKeywordResponse server"
  genre_server :: "GenreListResponse server"

fun perform :: "tmdb_config \<Rightarrow> servers \<Rightarrow> tmdb_state \<Rightarrow> api_call \<Rightarrow> tmdb_state" where
  "perform cfg net st (SearchMedia query page language) =
     fst (searchMedia cfg (media_server net) st query page language)"
| "perform cfg net st (GetTrending page language) =
     fst (getTrending cfg (media_server net) st page language)"
| "perform cfg net st (GetKeywordIds phrases language) =
     fst (getKeywordIds cfg (keyword_server net) st phrases language)"
| "perform cfg net st (GetGenreIds genreNames type language) =
     fst (getGenreIds cfg (genre_server net) st genreNames type language)"
| "perform cfg net st (DiscoverMedia type genreIds keywordIds page sortOption language year) =
     fst (discoverMedia cfg (media_server net) st type genreIds keywordIds page sortOption language year)"

fun session :: "tmdb_config \<Rightarrow> servers \<Rightarrow> tmdb_state \<Rightarrow> api_call list \<Rightarrow> tmdb_state" where
  "session cfg net st [] = st"
| "session cfg net st (c # cs) = session cfg net (perform cfg net st c) cs"

section \<open>Conditions on provider replies\<close>

text \<open>
  A failed provider call of the extraction: a transport error, a status that is not OK,
  a body that is not JSON or has no \<open>choices\<close>, an empty reply, or a reply text that
  \<open>JSON.parse\<close> rejects.
\<close>

definition providerCallFails :: "json_parser \<Rightarrow> or_data fetch_outcome \<Rightarrow> bool" where
  "providerCallFails parse outcome =
     (case outcome of
        FetchRejected \<Rightarrow> True
      | HttpResponse ok status body \<Rightarrow>
          \<not> ok \<or>
          (case body of
             None \<Rightarrow> True
           | Some data \<Rightarrow>
               (case firstContent data of
                  Inl e \<Rightarrow> True
                | Inr None \<Rightarrow> True
                | Inr (Some jsonString) \<Rightarrow> jsonString = [] \<or> parse jsonString = None)))"

definition providerCallFails_sdk :: "json_parser \<Rightarrow> sdk_outcome \<Rightarrow> bool" where
  "providerCallFails_sdk parse outcome =
     (case outcome of
        GenerateRejected \<Rightarrow> True
      | GenerateResponse None \<Rightarrow> True
      | GenerateResponse (Some jsonString) \<Rightarrow> jsonString = [] \<or> parse jsonString = None)"

text \<open>
  A reply that arrived and carries no content: it has no \<open>choices\<close>, or the content of
  its first choice is missing or empty.
\<close>

definition replyWithoutContent :: "or_data fetch_outcome \<Rightarrow> bool" where
  "replyWithoutContent outcome =
     (case outcome of
        HttpResponse True status (Some data) \<Rightarrow>
          (case firstContent data of Inr None \<Rightarrow> True | Inr (Some c) \<Rightarrow> c = [] | Inl e \<Rightarrow> True)
      | _ \<Rightarrow> False)"

definition replyWithoutContent_sdk :: "sdk_outcome \<Rightarrow> bool" where
  "replyWithoutContent_sdk outcome =
     (case outcome of
        GenerateResponse None \<Rightarrow> True
      | GenerateResponse (Some c) \<Rightarrow> c = []
      | GenerateRejected \<Rightarrow> False)"

section \<open>Sample configurations, servers and providers\<close>

abbreviation sample_ai_config :: ai_config where
  "sample_ai_config \<equiv>
     \<lparr> OPENROUTER_API_BASE_URL = ''https://openrouter.example/api/v1'',
       OPENROUTER_API_KEY = ''key'', OPENROUTER_CHAT_MODEL = ''model'',
       DISCOVER_SEARCH_INSTRUCTION = ''extract'', CHAT_SYSTEM_INSTRUCTION = ''chat'' \<rparr>"

definition reply_with_text :: "string \<Rightarrow> or_provider" where
  "reply_with_text t request =
     HttpResponse True 200 (Some (Completion (Some [Choice (Some (Message (Some t)))])))"

definition reply_without_text :: sdk_provider where
  "reply_without_text request = GenerateResponse None"

definition never_parses :: json_parser where
  "never_parses jsonString = None"

abbreviation sample_tmdb_config :: tmdb_config where
  "sample_tmdb_config \<equiv> \<lparr> TMDB_API_BASE_URL = ''https://tmdb.example/3'', TMDB_API_KEY = ''key'' \<rparr>"

abbreviation sample_movie :: TMDbResult where
  "sample_movie \<equiv> \<lparr> result_id = 603, media_type = ''movie'', poster_path = Some ''/matrix.jpg'' \<rparr>"

definition sample_media_server :: "TMDbResponse server" where
  "sample_media_server n url =
     HttpResponse True 200
       (Some \<lparr> results =
          [sample_movie,
           \<lparr> result_id = 6384, media_type = ''person'', poster_path = Some ''/reeves.jpg'' \<rparr>,
           \<lparr> result_id = 1399, media_type = ''tv'', poster_path = None \<rparr>] \<rparr>)"

definition sample_keyword_server :: "TMDbKeywordResponse server" where
  "sample_keyword_server n url =
     (if url = ''https://tmdb.example/3/search/keyword?query=time%20travel&page=1&api_key=key&language=en-US''
      then HttpResponse True 200 (Some \<lparr> keyword_results = [\<lparr> keyword_id = 4379 \<rparr>, \<lparr> keyword_id = 999 \<rparr>] \<rparr>)
      else HttpResponse True 200 (Some \<lparr> keyword_results = [] \<rparr>))"

text \<open>The second request of a session is rejected.\<close>

definition flaky_keyword_server :: "TMDbKeywordResponse server" where
  "flaky_keyword_server n url = (if n = 1 then FetchRejected else sample_keyword_server n url)"

definition unmatched_keyword_server :: "TMDbKeywordResponse server" where
  "unmatched_keyword_server n url = HttpResponse True 200 (Some \<lparr> keyword_results = [] \<rparr>)"

abbreviation sample_genres :: "Genre list" where
  "sample_genres \<equiv> [\<lparr> genre_id = 18, genre_name = ''Drama'' \<rparr>,
                     \<lparr> genre_id = 878, genre_name = ''Sci-Fi'' \<rparr>]"

definition sample_genre_server :: "GenreListResponse server" where
  "sample_genre_server n url = HttpResponse True 200 (Some \<lparr> genres = sample_genres \<rparr>)"

definition failing_genre_server :: "GenreListResponse server" where
  "failing_genre_server n url = FetchRejected"

definition empty_genre_server :: "GenreListResponse server" where
  "empty_genre_server n url = HttpResponse True 200 (Some \<lparr> genres = [] \<rparr>)"

abbreviation sample_servers :: "GenreListResponse server \<Rightarrow> servers" where
  "sample_servers g \<equiv>
     \<lparr> media_server = sample_media_server, keyword_server = sample_keyword_server, genre_server = g \<rparr>"

definition sci_fi_cached :: tmdb_state where
  "sci_fi_cached = initial_state\<lparr> keywordCache := [''sci-fi'' \<mapsto> 878] \<rparr>"

section \<open>Discovery requests\<close>

text \<open>
  Claim C2. Whatever the category, the sort option, the page and the language are,
  \<open>discoverMedia\<close> with an empty list of genre ids, an empty list of keyword ids and no
  year returns the empty list at once: the state comes back as it was, so the request
  log has not grown and no network call was made.
\<close>

theorem discoverMedia_guard:
  "discoverMedia cfg srv st type [] [] page sortOption language None = (st, Inr [])"
  by (simp add: discoverMedia_def noYear_def)

section \<open>Search and trending results\<close>

text \<open>
  Claim C10. Every item of a list returned by \<open>searchMedia\<close> or by \<open>getTrending\<close> has the
  media type \<open>movie\<close> or \<open>tv\<close> and a poster path that is present (and not the empty
  string); the other items of the upstream reply are not in the list.
\<close>

theorem search_and_trending_filtered:
  "(searchMedia cfg srv st query page language = (st', Inr rs) \<longrightarrow>
      (\<forall>r \<in> set rs. (media_type r = ''movie'' \<or> media_type r = ''tv'') \<and>
                     (\<exists>p. poster_path r = Some p \<and> p \<noteq> []))) \<and>
   (getTrending cfg srv st page language = (st'', Inr rs') \<longrightarrow>
      (\<forall>r \<in> set rs'. (media_type r = ''movie'' \<or> media_type r = ''tv'') \<and>
                      (\<exists>p. poster_path r = Some p \<and> p \<noteq> [])))"
  by (auto simp: searchMedia_def getTrending_def keepResult_def truthy_def
      split: if_splits prod.splits sum.splits option.splits)

theorem search_and_trending_filtered_witness:
  "snd (searchMedia sample_tmdb_config sample_media_server initial_state ''matrix'' None ''en-US'')
     = Inr [sample_movie] \<and>
   snd (getTrending sample_tmdb_config sample_media_server initial_state None ''en-US'')
     = Inr [sample_movie] \<and>
   (media_type sample_movie = ''movie'' \<or> media_type sample_movie = ''tv'') \<and>
   (\<exists>p. poster_path sample_movie = Some p \<and> p \<noteq> [])"
proof -
  let ?s = "searchMedia sample_tmdb_config sample_media_server initial_state ''matrix'' None ''en-US''"
  let ?t = "getTrending sample_tmdb_config sample_media_server initial_state None ''en-US''"
  have s: "snd ?s = Inr [sample_movie]"
    by (simp add: searchMedia_def fetchFromTMDb_def keepResult_def truthy_def sample_media_server_def)
  have t: "snd ?t = Inr [sample_movie]"
    by (simp add: getTrending_def fetchFromTMDb_def keepResult_def truthy_def sample_media_server_def)
  have s': "?s = (fst ?s, Inr [sample_movie])" using s by (simp add: prod_eq_iff)
  have t': "?t = (fst ?t, Inr [sample_movie])" using t by (simp add: prod_eq_iff)
  from search_and_trending_filtered
         [of sample_tmdb_config sample_media_server initial_state "''matrix''" None "''en-US''"
             "fst ?s" "[sample_movie]" "fst ?t" "[sample_movie]"] s' t'
  have "\<forall>r \<in> set [sample_movie].
      (media_type r = ''movie'' \<or> media_type r = ''tv'') \<and> (\<exists>p. poster_path r = Some p \<and> p \<noteq> [])"
    by blast
  then have "(media_type sample_movie = ''movie'' \<or> media_type sample_movie = ''tv'') \<and>
             (\<exists>p. poster_path sample_movie = Some p \<and> p \<noteq> [])"
    by (simp only: list.set ball_simps)
  with s t show ?thesis by blast
qed

section \<open>Criteria extraction and chat\<close>

text \<open>
  Claim C1. \<open>getSearchTermsFromAI\<close> always returns a value, never an error, for every
  query and every behaviour of the provider; and when the provider call fails (transport
  error, status not OK, empty reply, reply that does not parse as JSON) the value is the
  object whose only field is \<open>search_query\<close>, holding the query as it was given. This
  holds for the HTTP integration and for the SDK integration.
\<close>

theorem extract_never_raises:
  "(\<exists>v. getSearchTermsFromAI cfg parse provider query = Inr v) \<and>
   (providerCallFails parse (provider (searchRequest cfg query)) \<longrightarrow>
      getSearchTermsFromAI cfg parse provider query = Inr (rawQueryFallback query)) \<and>
   (\<exists>v. getSearchTermsFromAI_sdk cfg parse sdk query = Inr v) \<and>
   (providerCallFails_sdk parse (sdk (searchRequest_sdk cfg query)) \<longrightarrow>
      getSearchTermsFromAI_sdk cfg parse sdk query = Inr (rawQueryFallback query))"
  by (auto simp: getSearchTermsFromAI_def searchAttempt_def providerCallFails_def
        getSearchTermsFromAI_sdk_def searchAttempt_sdk_def providerCallFails_sdk_def
      split: sum.splits fetch_outcome.splits option.splits sdk_outcome.splits)

theorem extract_never_raises_witness:
  "providerCallFails never_parses
     (reply_with_text ''not json'' (searchRequest sample_ai_config ''The Matrix'')) \<and>
   getSearchTermsFromAI sample_ai_config never_parses (reply_with_text ''not json'') ''The Matrix''
   = Inr \<lparr> search_query = Some ''The Matrix'', ai_media_type = None, ai_genres = None,
           ai_keywords = None, ai_year = None \<rparr> \<and>
   providerCallFails_sdk never_parses
     (reply_without_text (searchRequest_sdk sample_ai_config ''The Matrix'')) \<and>
   getSearchTermsFromAI_sdk sample_ai_config never_parses reply_without_text ''The Matrix''
   = Inr \<lparr> search_query = Some ''The Matrix'', ai_media_type = None, ai_genres = None,
           ai_keywords = None, ai_year = None \<rparr>"
  using extract_never_raises
    [of sample_ai_config never_parses "reply_with_text ''not json''" "''The Matrix''"
        reply_without_text]
  by (simp add: providerCallFails_def providerCallFails_sdk_def firstContent_def rawQueryFallback_def
        reply_with_text_def reply_without_text_def never_parses_def)

text \<open>
  Claim C9. For every chat history, when the reply of the provider carries no content,
  \<open>getChatResponseFromAI\<close> ends with the error of its \<open>catch\<close> block; the result is an
  error, so no text stands in for the missing reply. This holds for the HTTP integration
  and for the SDK integration.
\<close>

theorem chat_empty_reply_raises:
  "(replyWithoutContent (provider (chatRequest cfg history)) \<longrightarrow>
      getChatResponseFromAI cfg provider history = Inl ChatResponseFailed) \<and>
   (replyWithoutContent_sdk (sdk (chatRequest_sdk cfg history)) \<longrightarrow>
      getChatResponseFromAI_sdk cfg sdk history = Inl ChatResponseFailed)"
  by (auto simp: getChatResponseFromAI_def chatAttempt_def replyWithoutContent_def
        getChatResponseFromAI_sdk_def chatAttempt_sdk_def replyWithoutContent_sdk_def
      split: sum.splits fetch_outcome.splits option.splits sdk_outcome.splits bool.splits)

theorem chat_empty_reply_raises_witness:
  "replyWithoutContent
     (reply_with_text [] (chatRequest sample_ai_config [\<lparr> role = ''user'', content = ''hello'' \<rparr>])) \<and>
   getChatResponseFromAI sample_ai_config (reply_with_text [])
     [\<lparr> role = ''user'', content = ''hello'' \<rparr>]
   = Inl ChatResponseFailed \<and>
   replyWithoutContent_sdk
     (reply_without_text (chatRequest_sdk sample_ai_config [\<lparr> role = ''user'', content = ''hello'' \<rparr>])) \<and>
   getChatResponseFromAI_sdk sample_ai_config reply_without_text
     [\<lparr> role = ''user'', content = ''hello'' \<rparr>]
   = Inl ChatResponseFailed"
  using chat_empty_reply_raises
    [of "reply_with_text []" sample_ai_config "[\<lparr> role = ''user'', content = ''hello'' \<rparr>]"
        reply_without_text]
  by (simp add: replyWithoutContent_def replyWithoutContent_sdk_def firstContent_def
        reply_with_text_def reply_without_text_def)

section \<open>Lists, batches and the request log\<close>

lemma set_insertUnique: "set (insertUnique seen xs) = set seen \<union> set xs"
  by (induction xs arbitrary: seen) auto

lemma distinct_insertUnique: "distinct seen \<Longrightarrow> distinct (insertUnique seen xs)"
  by (induction xs arbitrary: seen) auto

lemma length_insertUnique: "length (insertUnique seen xs) \<le> length seen + length xs"
proof (induction xs arbitrary: seen)
  case Nil
  show ?case by simp
next
  case (Cons x xs)
  have "length (insertUnique seen xs) \<le> length seen + length xs"
    and "length (insertUnique (seen @ [x]) xs) \<le> length (seen @ [x]) + length xs"
    using Cons.IH by blast+
  then show ?case by auto
qed

lemma set_uniqueValues: "set (uniqueValues xs) = set xs"
  by (simp add: uniqueValues_def set_insertUnique)

lemma distinct_uniqueValues: "distinct (uniqueValues xs)"
  by (simp add: uniqueValues_def distinct_insertUnique)

lemma length_uniqueValues: "length (uniqueValues xs) \<le> length xs"
  using length_insertUnique [of "[]" xs] by (simp add: uniqueValues_def)

lemma length_uniqueValues_card: "length (uniqueValues xs) = card (set xs)"
  using distinct_card [OF distinct_uniqueValues, of xs] by (simp add: set_uniqueValues)

lemma partitionCached_filter:
  "partitionCached cache ks (a, b) =
     (a @ map (\<lambda>k. the (cache k)) (filter (\<lambda>k. cache k \<noteq> None) ks),
      b @ filter (\<lambda>k. cache k = None) ks)"
  by (induction ks arbitrary: a b) (auto split: option.splits)

lemma keywordsToFetch_filter:
  "keywordsToFetch st keywords = filter (\<lambda>k. keywordCache st k = None) (uniqueKeywords keywords)"
  by (simp add: keywordsToFetch_def partitionCached_filter)

lemma cachedIdsOf_filter:
  "cachedIdsOf st keywords =
     map (\<lambda>k. the (keywordCache st k)) (filter (\<lambda>k. keywordCache st k \<noteq> None) (uniqueKeywords keywords))"
  by (simp add: cachedIdsOf_def partitionCached_filter)

lemma keywordsToFetch_Nil: "keywordsToFetch st [] = []"
  by (simp add: keywordsToFetch_def uniqueKeywords_def uniqueValues_def)

lemma distinct_uniqueKeywords: "distinct (uniqueKeywords keywords)"
  by (simp add: uniqueKeywords_def distinct_uniqueValues)

lemma distinct_keywordsToFetch: "distinct (keywordsToFetch st keywords)"
  by (simp add: keywordsToFetch_filter distinct_uniqueKeywords)

lemma length_partition:
  "length (cachedIdsOf st keywords) + length (keywordsToFetch st keywords) = length (uniqueKeywords keywords)"
  unfolding cachedIdsOf_filter keywordsToFetch_filter length_map
  using sum_length_filter_compl [of "\<lambda>k. keywordCache st k \<noteq> None" "uniqueKeywords keywords"]
  by simp

lemma set_cached_values:
  "set (map (\<lambda>k. the (c k)) (filter (\<lambda>k. c k \<noteq> None) xs)) = {v. \<exists>k \<in> set xs. c k = Some v}"
  by (induction xs) auto

lemma fetchFromTMDb_state:
  "fetchFromTMDb cfg srv st endpoint language = (st', r) \<Longrightarrow>
     st' = st\<lparr> requests := requests st @ [finalUrl cfg endpoint language] \<rparr>"
  by (auto simp: fetchFromTMDb_def Let_def split: fetch_outcome.splits if_splits option.splits)

lemma fetchAll_state:
  "fetchAll cfg srv st endpoints language = (st', rs) \<Longrightarrow>
     st' = st\<lparr> requests := requests st @ map (\<lambda>e. finalUrl cfg e language) endpoints \<rparr> \<and>
     length rs = length endpoints"
proof (induction endpoints arbitrary: st st' rs)
  case Nil
  then show ?case by simp
next
  case (Cons e es)
  obtain st1 r where f: "fetchFromTMDb cfg srv st e language = (st1, r)"
    by (cases "fetchFromTMDb cfg srv st e language")
  obtain st2 rs2 where g: "fetchAll cfg srv st1 es language = (st2, rs2)"
    by (cases "fetchAll cfg srv st1 es language")
  from Cons.prems f g have eq: "st' = st2" "rs = r # rs2" by simp_all
  from fetchFromTMDb_state [OF f] Cons.IH [OF g] eq show ?case by simp
qed

lemma promiseAll_Inr:
  "promiseAll rs = Inr vs \<Longrightarrow> rs = map Inr vs"
  by (induction rs arbitrary: vs rule: promiseAll.induct) (auto split: sum.splits)

lemma promiseAll_Inl_iff:
  "(\<exists>e. promiseAll rs = Inl e) \<longleftrightarrow> (\<exists>e. Inl e \<in> set rs)"
  by (induction rs rule: promiseAll.induct) (auto split: sum.splits)

lemma storeResponses_ids:
  "snd (storeResponses zs (c, ids)) =
     ids @ map (\<lambda>(r, k). keyword_id (hd (keyword_results r)))
             (filter (\<lambda>(r, k). keyword_results r \<noteq> []) zs)"
  by (induction zs arbitrary: c ids) (auto split: list.splits)

lemma storeResponses_cache_None:
  "fst (storeResponses zs (c, ids)) key = None \<longleftrightarrow>
     c key = None \<and> (\<forall>(r, k) \<in> set zs. k = key \<longrightarrow> keyword_results r = [])"
proof (induction zs arbitrary: c ids)
  case Nil
  show ?case by simp
next
  case (Cons z zs)
  obtain r k where z: "z = (r, k)" by (cases z)
  show ?case
  proof (cases "keyword_results r")
    case Nil
    then have "storeResponses (z # zs) (c, ids) = storeResponses zs (c, ids)"
      using z by simp
    then show ?thesis using Cons.IH [of c ids] z Nil by auto
  next
    case (Cons x xs)
    let ?c = "c(k \<mapsto> keyword_id x)"
    have step: "storeResponses (z # zs) (c, ids) = storeResponses zs (?c, ids @ [keyword_id x])"
      using z Cons by simp
    have ih: "fst (storeResponses zs (?c, ids @ [keyword_id x])) key = None \<longleftrightarrow>
        ?c key = None \<and> (\<forall>(r, k) \<in> set zs. k = key \<longrightarrow> keyword_results r = [])"
      by (rule Cons.IH)
    have "(?c key = None \<and> (\<forall>(r, k) \<in> set zs. k = key \<longrightarrow> keyword_results r = [])) \<longleftrightarrow>
          (c key = None \<and> (\<forall>(r, k) \<in> set (z # zs). k = key \<longrightarrow> keyword_results r = []))"
      using z Cons by auto
    with step ih show ?thesis by simp
  qed
qed

lemma storeResponses_cache:
  "fst (storeResponses zs (c, ids)) =
     c ++ map_of (rev (map (\<lambda>(r, k). (k, keyword_id (hd (keyword_results r))))
                       (filter (\<lambda>(r, k). keyword_results r \<noteq> []) zs)))"
proof (induction zs arbitrary: c ids)
  case Nil
  show ?case by simp
next
  case (Cons z zs)
  obtain r k where z: "z = (r, k)" by (cases z)
  show ?case
  proof (cases "keyword_results r")
    case Nil
    then show ?thesis using Cons.IH [of c ids] z by simp
  next
    case (Cons x xs)
    let ?v = "keyword_id x"
    let ?m = "map_of (rev (map (\<lambda>(r, k). (k, keyword_id (hd (keyword_results r))))
                             (filter (\<lambda>(r, k). keyword_results r \<noteq> []) zs)))"
    have step: "storeResponses (z # zs) (c, ids) = storeResponses zs (c(k \<mapsto> ?v), ids @ [?v])"
      using z Cons by simp
    have ih: "fst (storeResponses zs (c(k \<mapsto> ?v), ids @ [?v])) = c(k \<mapsto> ?v) ++ ?m"
      by (rule Cons.IH)
    have m: "c(k \<mapsto> ?v) ++ ?m = c ++ (map_of [(k, ?v)] ++ ?m)"
      by (rule ext) (simp add: map_add_def split: option.splits)
    have p: "map (\<lambda>(r, k). (k, keyword_id (hd (keyword_results r))))
               (filter (\<lambda>(r, k). keyword_results r \<noteq> []) (z # zs))
             = (k, ?v) # map (\<lambda>(r, k). (k, keyword_id (hd (keyword_results r))))
                            (filter (\<lambda>(r, k). keyword_results r \<noteq> []) zs)"
      using z Cons by simp
    have "fst (storeResponses (z # zs) (c, ids)) = c(k \<mapsto> ?v) ++ ?m"
      unfolding step by (rule ih)
    also have "\<dots> = c ++ (map_of [(k, ?v)] ++ ?m)"
      by (rule m)
    also have "map_of [(k, ?v)] ++ ?m =
                 map_of (rev (map (\<lambda>(r, k). (k, keyword_id (hd (keyword_results r))))
                                (filter (\<lambda>(r, k). keyword_results r \<noteq> []) (z # zs))))"
      unfolding p rev.simps map_of_append ..
    finally show ?thesis .
  qed
qed

lemma keywordOutcomes_state:
  "keywordOutcomes cfg srv st keywords language = (st1, outcomes) \<Longrightarrow>
     keywordCache st1 = keywordCache st \<and> genreCache st1 = genreCache st \<and>
     requests st1 = requests st @
        map (\<lambda>k. finalUrl cfg (keywordEndpoint k) (Some language)) (keywordsToFetch st keywords) \<and>
     length outcomes = length (keywordsToFetch st keywords)"
  unfolding keywordOutcomes_def by (drule fetchAll_state) (simp add: comp_def)

lemma getKeywordIds_no_fetch:
  assumes "keywordsToFetch st keywords = []"
  shows "getKeywordIds cfg srv st keywords language =
           (st, Inr (uniqueValues (cachedIdsOf st keywords)))"
proof (cases "keywords = []")
  case True
  then show ?thesis
    by (simp add: getKeywordIds_def cachedIdsOf_def uniqueKeywords_def uniqueValues_def)
next
  case False
  with assms show ?thesis by (simp add: getKeywordIds_def)
qed

lemma getKeywordIds_requests:
  "requests (fst (getKeywordIds cfg srv st keywords language)) =
     requests st @ map (\<lambda>k. finalUrl cfg (keywordEndpoint k) (Some language)) (keywordsToFetch st keywords)"
proof (cases "keywords = [] \<or> keywordsToFetch st keywords = []")
  case True
  then show ?thesis by (auto simp: getKeywordIds_def keywordsToFetch_Nil)
next
  case False
  obtain st1 outcomes where ko: "keywordOutcomes cfg srv st keywords language = (st1, outcomes)"
    by (cases "keywordOutcomes cfg srv st keywords language")
  from keywordOutcomes_state [OF ko] False ko show ?thesis
    by (auto simp: getKeywordIds_def split: sum.splits prod.splits)
qed

section \<open>Keyword resolution\<close>

text \<open>
  Claim C6. When \<open>getKeywordIds\<close> returns a list, its elements are pairwise different,
  there are at most as many as there are distinct normalized (lower-cased, trimmed)
  phrases in the input, and every element is an id the cache held for a phrase or the id
  of the first result of a reply that had results: a phrase whose search returned
  nothing contributes nothing, no placeholder stands for it.
\<close>

theorem resolved_ids_unique_and_matched:
  assumes "getKeywordIds cfg srv st keywords language = (st', Inr ids)"
  shows "distinct ids \<and>
         length ids \<le> card (set (map normalizeKey keywords)) \<and>
         set ids = set (cachedIdsOf st keywords) \<union>
           {keyword_id (hd (keyword_results r)) | r.
              Inr r \<in> set (snd (keywordOutcomes cfg srv st keywords language)) \<and>
              keyword_results r \<noteq> []}"
proof (cases "keywords = [] \<or> keywordsToFetch st keywords = []")
  case True
  have out: "snd (keywordOutcomes cfg srv st keywords language) = []"
    using True by (auto simp: keywordOutcomes_def keywordsToFetch_def uniqueKeywords_def uniqueValues_def)
  have ids: "ids = uniqueValues (cachedIdsOf st keywords)"
  proof (cases "keywords = []")
    case True
    then show ?thesis
      using assms by (simp add: getKeywordIds_def cachedIdsOf_def uniqueKeywords_def uniqueValues_def)
  next
    case False
    with True assms show ?thesis by (auto simp: getKeywordIds_def)
  qed
  have "length ids \<le> length (cachedIdsOf st keywords)"
    unfolding ids by (rule length_uniqueValues)
  also have "\<dots> \<le> length (uniqueKeywords keywords)"
    using length_partition [of st "keywords"] by simp
  also have "\<dots> = card (set (map normalizeKey keywords))"
    by (simp add: uniqueKeywords_def length_uniqueValues_card)
  finally have "length ids \<le> card (set (map normalizeKey keywords))" .
  then show ?thesis
    using out by (simp add: ids distinct_uniqueValues set_uniqueValues)
next
  case False
  obtain st1 outcomes where ko: "keywordOutcomes cfg srv st keywords language = (st1, outcomes)"
    by (cases "keywordOutcomes cfg srv st keywords language")
  from keywordOutcomes_state [OF ko]
  have len: "length outcomes = length (keywordsToFetch st keywords)" by simp
  from False ko assms obtain responses where pa: "promiseAll outcomes = Inr responses"
    by (auto simp: getKeywordIds_def split: sum.splits)
  then have outs: "outcomes = map Inr responses" by (rule promiseAll_Inr)
  let ?zs = "zip responses (keywordsToFetch st keywords)"
  let ?new = "map (\<lambda>(r, k). keyword_id (hd (keyword_results r)))
                (filter (\<lambda>(r, k). keyword_results r \<noteq> []) ?zs)"
  from False ko pa assms
  have ids: "ids = uniqueValues (snd (storeResponses ?zs (keywordCache st1, cachedIdsOf st keywords)))"
    by (auto simp: getKeywordIds_def split: prod.splits)
  then have ids': "ids = uniqueValues (cachedIdsOf st keywords @ ?new)"
    by (simp add: storeResponses_ids)
  have lenr: "length responses = length (keywordsToFetch st keywords)"
    using len outs by simp
  have "length ids \<le> length (cachedIdsOf st keywords @ ?new)"
    unfolding ids' by (rule length_uniqueValues)
  also have "\<dots> \<le> length (cachedIdsOf st keywords) + length ?zs"
    using length_filter_le [of "\<lambda>(r, k). keyword_results r \<noteq> []" ?zs] by simp
  also have "\<dots> = length (uniqueKeywords keywords)"
    using length_partition [of st "keywords"] lenr by simp
  also have "\<dots> = card (set (map normalizeKey keywords))"
    by (simp add: uniqueKeywords_def length_uniqueValues_card)
  finally have bound: "length ids \<le> card (set (map normalizeKey keywords))" .
  have fsts: "map fst ?zs = responses" using lenr by simp
  have "set ?new = {keyword_id (hd (keyword_results r)) | r. r \<in> set (map fst ?zs) \<and> keyword_results r \<noteq> []}"
    by force
  then have new: "set ?new = {keyword_id (hd (keyword_results r)) | r. Inr r \<in> set outcomes \<and> keyword_results r \<noteq> []}"
    unfolding fsts outs by auto
  show ?thesis
    using bound new ko by (simp add: ids' distinct_uniqueValues set_uniqueValues)
qed

theorem resolved_ids_unique_and_matched_witness:
  "snd (getKeywordIds sample_tmdb_config sample_keyword_server initial_state
          [''Time Travel'', ''zzz'', ''time travel ''] ''en-US'') = Inr [4379] \<and>
   distinct [4379 :: int] \<and>
   length [4379 :: int] \<le> card (set (map normalizeKey [''Time Travel'', ''zzz'', ''time travel ''])) \<and>
   card (set (map normalizeKey [''Time Travel'', ''zzz'', ''time travel ''])) = 2"
proof -
  let ?g = "getKeywordIds sample_tmdb_config sample_keyword_server initial_state
          [''Time Travel'', ''zzz'', ''time travel ''] ''en-US''"
  have s: "snd ?g = Inr [4379]" by code_simp
  then have "?g = (fst ?g, Inr [4379])" by (simp add: prod_eq_iff)
  from resolved_ids_unique_and_matched [OF this]
  have "distinct [4379 :: int] \<and>
        length [4379 :: int] \<le> card (set (map normalizeKey [''Time Travel'', ''zzz'', ''time travel '']))"
    by blast
  moreover have "card (set (map normalizeKey [''Time Travel'', ''zzz'', ''time travel ''])) = 2"
    by code_simp
  ultimately show ?thesis using s by blast
qed

text \<open>
  Claim C5. When one of the transport calls of a batch fails, \<open>getKeywordIds\<close> fails as
  a whole and the keyword cache is what it was before the call: no pair of the failed
  batch has been stored.
\<close>

theorem failed_batch_leaves_cache:
  assumes "Inl e \<in> set (snd (keywordOutcomes cfg srv st keywords language))"
  shows "(\<exists>e'. snd (getKeywordIds cfg srv st keywords language) = Inl e') \<and>
         keywordCache (fst (getKeywordIds cfg srv st keywords language)) = keywordCache st"
proof -
  obtain st1 outcomes where ko: "keywordOutcomes cfg srv st keywords language = (st1, outcomes)"
    by (cases "keywordOutcomes cfg srv st keywords language")
  with assms have mem: "Inl e \<in> set outcomes" by simp
  from keywordOutcomes_state [OF ko] have cache: "keywordCache st1 = keywordCache st"
    and len: "length outcomes = length (keywordsToFetch st keywords)" by simp_all
  from mem len have nonempty: "keywordsToFetch st keywords \<noteq> []" by auto
  then have "uniqueKeywords keywords \<noteq> []" by (auto simp: keywordsToFetch_filter)
  then have kw: "keywords \<noteq> []" by (auto simp: uniqueKeywords_def uniqueValues_def)
  from mem obtain e' where pa: "promiseAll outcomes = Inl e'"
    using promiseAll_Inl_iff [of outcomes] by blast
  from kw nonempty ko pa have "getKeywordIds cfg srv st keywords language = (st1, Inl e')"
    by (simp add: getKeywordIds_def)
  with cache show ?thesis by simp
qed

theorem failed_batch_leaves_cache_witness:
  "Inl (FailedToFetch ''search/keyword?query=zzz&page=1'')
     \<in> set (snd (keywordOutcomes sample_tmdb_config flaky_keyword_server initial_state
                    [''Time Travel'', ''zzz''] ''en-US'')) \<and>
   (\<exists>e'. snd (getKeywordIds sample_tmdb_config flaky_keyword_server initial_state
                 [''Time Travel'', ''zzz''] ''en-US'') = Inl e') \<and>
   keywordCache (fst (getKeywordIds sample_tmdb_config flaky_keyword_server initial_state
                        [''Time Travel'', ''zzz''] ''en-US'')) = keywordCache initial_state"
proof -
  have h: "Inl (FailedToFetch ''search/keyword?query=zzz&page=1'')
     \<in> set (snd (keywordOutcomes sample_tmdb_config flaky_keyword_server initial_state
                    [''Time Travel'', ''zzz''] ''en-US''))"
    by code_simp
  from failed_batch_leaves_cache [OF h] h show ?thesis by blast
qed

section \<open>Normalized names\<close>

lemma uniqueKeywords_cong:
  "map normalizeKey names1 = map normalizeKey names2 \<Longrightarrow> uniqueKeywords names1 = uniqueKeywords names2"
  by (simp add: uniqueKeywords_def)

text \<open>
  Claim C8. Lookup depends on the names only through their normalized forms: two lists
  of names that agree after lower-casing and trimming give the same result and the same
  state, for keywords and for genres. So \<open>"Sci-Fi "\<close> and \<open>" SCI-FI"\<close> reach the cache
  entry of \<open>sci-fi\<close> and resolve to the same id.
\<close>

theorem normalized_names_same_entry:
  assumes "map normalizeKey names1 = map normalizeKey names2"
  shows "getKeywordIds cfg ksrv st names1 language = getKeywordIds cfg ksrv st names2 language \<and>
         getGenreIds cfg gsrv st names1 type language = getGenreIds cfg gsrv st names2 type language"
proof -
  from assms have nil: "names1 = [] \<longleftrightarrow> names2 = []"
    by (metis map_is_Nil_conv)
  from assms have uk: "uniqueKeywords names1 = uniqueKeywords names2"
    by (rule uniqueKeywords_cong)
  have f: "keywordsToFetch st names1 = keywordsToFetch st names2"
    and c: "cachedIdsOf st names1 = cachedIdsOf st names2"
    by (simp_all add: keywordsToFetch_def cachedIdsOf_def uk)
  have k: "getKeywordIds cfg ksrv st names1 language = getKeywordIds cfg ksrv st names2 language"
    by (simp only: getKeywordIds_def keywordOutcomes_def f c nil)
  have g: "getGenreIds cfg gsrv st names1 type language = getGenreIds cfg gsrv st names2 type language"
    by (simp only: getGenreIds_def nil assms)
  from k g show ?thesis ..
qed

theorem normalized_names_same_entry_witness:
  "map normalizeKey [''Sci-Fi ''] = map normalizeKey ['' SCI-FI''] \<and>
   map normalizeKey ['' SCI-FI''] = [''sci-fi''] \<and>
   getKeywordIds sample_tmdb_config sample_keyword_server sci_fi_cached [''Sci-Fi ''] ''en-US''
     = getKeywordIds sample_tmdb_config sample_keyword_server sci_fi_cached ['' SCI-FI''] ''en-US'' \<and>
   snd (getKeywordIds sample_tmdb_config sample_keyword_server sci_fi_cached ['' SCI-FI''] ''en-US'')
     = Inr [878] \<and>
   getGenreIds sample_tmdb_config sample_genre_server sci_fi_cached [''Sci-Fi ''] Movie ''en-US''
     = getGenreIds sample_tmdb_config sample_genre_server sci_fi_cached ['' SCI-FI''] Movie ''en-US'' \<and>
   snd (getGenreIds sample_tmdb_config sample_genre_server sci_fi_cached ['' SCI-FI''] Movie ''en-US'')
     = Inr [878]"
proof -
  have h: "map normalizeKey [''Sci-Fi ''] = map normalizeKey ['' SCI-FI'']" by code_simp
  have n: "map normalizeKey ['' SCI-FI''] = [''sci-fi'']" by code_simp
  have k: "snd (getKeywordIds sample_tmdb_config sample_keyword_server sci_fi_cached ['' SCI-FI''] ''en-US'')
     = Inr [878]" by code_simp
  have g: "snd (getGenreIds sample_tmdb_config sample_genre_server sci_fi_cached ['' SCI-FI''] Movie ''en-US'')
     = Inr [878]" by code_simp
  from normalized_names_same_entry [OF h] h n k g show ?thesis by blast
qed

section \<open>A second keyword lookup\<close>

lemma unmatchedKeywords_filter:
  "length rs = length ks \<Longrightarrow> distinct ks \<Longrightarrow>
     unmatchedKeywords (map Inr rs) ks =
       filter (\<lambda>key. \<forall>(r, k) \<in> set (zip rs ks). k = key \<longrightarrow> keyword_results r = []) ks"
proof (induction rs ks rule: list_induct2)
  case Nil
  show ?case by simp
next
  case (Cons r rs k ks)
  let ?P = "\<lambda>key. \<forall>(r, k) \<in> set (zip rs ks). k = key \<longrightarrow> keyword_results r = []"
  let ?Q = "\<lambda>key. \<forall>(r', k') \<in> set (zip (r # rs) (k # ks)). k' = key \<longrightarrow> keyword_results r' = []"
  from Cons.prems have notin: "k \<notin> set ks" and dist: "distinct ks" by simp_all
  have ih: "unmatchedKeywords (map Inr rs) ks = filter ?P ks"
    using Cons.IH dist by simp
  have tail: "filter ?Q ks = filter ?P ks"
    using notin by (intro filter_cong) auto
  have head: "?Q k \<longleftrightarrow> keyword_results r = []"
    using notin by (auto dest: set_zip_rightD)
  have "unmatchedKeywords (map Inr (r # rs)) (k # ks) =
          (if keyword_results r = [] then k # filter ?P ks else filter ?P ks)"
    using ih by simp
  also have "\<dots> = (if ?Q k then k # filter ?Q ks else filter ?Q ks)"
    unfolding tail head ..
  also have "\<dots> = filter ?Q (k # ks)"
    by (simp only: filter.simps)
  finally show ?case .
qed

lemma first_call_leaves_unmatched:
  assumes "getKeywordIds cfg srv st keywords language = (st1, Inr ids)"
  shows "keywordsToFetch st1 keywords =
           unmatchedKeywords (snd (keywordOutcomes cfg srv st keywords language))
             (keywordsToFetch st keywords)"
proof (cases "keywords = [] \<or> keywordsToFetch st keywords = []")
  case True
  then have nf: "keywordsToFetch st keywords = []" by (auto simp: keywordsToFetch_Nil)
  from getKeywordIds_no_fetch [OF nf, of cfg srv language] assms have "st1 = st" by simp
  with nf show ?thesis by (simp add: keywordOutcomes_def)
next
  case False
  obtain st0 outcomes where ko: "keywordOutcomes cfg srv st keywords language = (st0, outcomes)"
    by (cases "keywordOutcomes cfg srv st keywords language")
  from keywordOutcomes_state [OF ko]
  have len: "length outcomes = length (keywordsToFetch st keywords)"
    and cache0: "keywordCache st0 = keywordCache st" by simp_all
  from False ko assms obtain responses where pa: "promiseAll outcomes = Inr responses"
    by (auto simp: getKeywordIds_def split: sum.splits)
  then have outs: "outcomes = map Inr responses" by (rule promiseAll_Inr)
  with len have lenr: "length responses = length (keywordsToFetch st keywords)" by simp
  let ?zs = "zip responses (keywordsToFetch st keywords)"
  let ?Q = "\<lambda>key. \<forall>(r, k) \<in> set ?zs. k = key \<longrightarrow> keyword_results r = []"
  from False ko pa assms
  have cache1: "keywordCache st1 =
      fst (storeResponses ?zs (keywordCache st0, cachedIdsOf st keywords))"
    by (auto simp: getKeywordIds_def split: prod.splits)
  have none: "keywordCache st1 key = None \<longleftrightarrow> keywordCache st key = None \<and> ?Q key" for key
    unfolding cache1 cache0 by (rule storeResponses_cache_None)
  have "keywordsToFetch st1 keywords =
          filter (\<lambda>key. keywordCache st key = None \<and> ?Q key) (uniqueKeywords keywords)"
    unfolding keywordsToFetch_filter none ..
  also have "\<dots> = filter ?Q (keywordsToFetch st keywords)"
    unfolding keywordsToFetch_filter by (simp add: conj_commute)
  also have "\<dots> = unmatchedKeywords (map Inr responses) (keywordsToFetch st keywords)"
    using unmatchedKeywords_filter [OF lenr distinct_keywordsToFetch] by simp
  finally show ?thesis using ko outs by simp
qed

lemma merged_cache_values:
  assumes look: "\<And>k v. c1 k = Some v \<longleftrightarrow> (k, v) \<in> P \<or> (k \<notin> fst ` P \<and> c k = Some v)"
    and keys: "fst ` P \<subseteq> {k \<in> U. c k = None}"
  shows "{v. \<exists>k \<in> U. c1 k = Some v} = {v. \<exists>k \<in> U. c k = Some v} \<union> snd ` P"
proof (intro set_eqI iffI)
  fix v
  assume "v \<in> {v. \<exists>k \<in> U. c1 k = Some v}"
  then obtain k where k: "k \<in> U" "c1 k = Some v" by blast
  from k(2) look have "(k, v) \<in> P \<or> c k = Some v" by blast
  then show "v \<in> {v. \<exists>k \<in> U. c k = Some v} \<union> snd ` P"
    using k(1) by force
next
  fix v
  assume "v \<in> {v. \<exists>k \<in> U. c k = Some v} \<union> snd ` P"
  then consider k where "k \<in> U" "c k = Some v" | k where "(k, v) \<in> P" by force
  then show "v \<in> {v. \<exists>k \<in> U. c1 k = Some v}"
  proof cases
    case 1
    with keys have "k \<notin> fst ` P" by auto
    with 1 look have "c1 k = Some v" by blast
    with 1 show ?thesis by blast
  next
    case 2
    then have "k \<in> fst ` P" by force
    with keys have "k \<in> U" by blast
    moreover from 2 look have "c1 k = Some v" by blast
    ultimately show ?thesis by blast
  qed
qed

lemma cached_ids_after_first_call:
  assumes "getKeywordIds cfg srv st keywords language = (st1, Inr ids)"
  shows "set (cachedIdsOf st1 keywords) = set ids"
proof (cases "keywords = [] \<or> keywordsToFetch st keywords = []")
  case True
  then have nf: "keywordsToFetch st keywords = []" by (auto simp: keywordsToFetch_Nil)
  from getKeywordIds_no_fetch [OF nf, of cfg srv language] assms
  show ?thesis by (auto simp: set_uniqueValues)
next
  case False
  obtain st0 outcomes where ko: "keywordOutcomes cfg srv st keywords language = (st0, outcomes)"
    by (cases "keywordOutcomes cfg srv st keywords language")
  from keywordOutcomes_state [OF ko]
  have len: "length outcomes = length (keywordsToFetch st keywords)"
    and cache0: "keywordCache st0 = keywordCache st" by simp_all
  from False ko assms obtain responses where pa: "promiseAll outcomes = Inr responses"
    by (auto simp: getKeywordIds_def split: sum.splits)
  then have outs: "outcomes = map Inr responses" by (rule promiseAll_Inr)
  with len have lenr: "length responses = length (keywordsToFetch st keywords)" by simp
  let ?uks = "uniqueKeywords keywords"
  let ?c = "keywordCache st"
  let ?zs = "zip responses (keywordsToFetch st keywords)"
  let ?ps = "map (\<lambda>(r, k). (k, keyword_id (hd (keyword_results r))))
               (filter (\<lambda>(r, k). keyword_results r \<noteq> []) ?zs)"
  from False ko pa assms
  have cache1: "keywordCache st1 = fst (storeResponses ?zs (?c, cachedIdsOf st keywords))"
    and ids: "ids = uniqueValues (snd (storeResponses ?zs (keywordCache st0, cachedIdsOf st keywords)))"
    by (auto simp: getKeywordIds_def cache0 split: prod.splits)
  have c1: "keywordCache st1 = ?c ++ map_of (rev ?ps)"
    unfolding cache1 by (rule storeResponses_cache)
  have "map fst ?ps = map snd (filter (\<lambda>(r, k). keyword_results r \<noteq> []) ?zs)"
    by (simp add: case_prod_unfold comp_def)
  moreover have "distinct (map snd ?zs)"
    using lenr distinct_keywordsToFetch [of st "keywords"] by simp
  ultimately have "distinct (map fst ?ps)"
    by (simp only: distinct_map_filter)
  then have dist: "distinct (map fst (rev ?ps))"
    by (simp only: rev_map [symmetric] distinct_rev)
  have keys: "fst ` set ?ps \<subseteq> {k \<in> set ?uks. ?c k = None}"
  proof
    fix k assume "k \<in> fst ` set ?ps"
    then obtain r where "(r, k) \<in> set ?zs" by auto
    then have "k \<in> set (keywordsToFetch st keywords)" by (rule set_zip_rightD)
    then show "k \<in> {k \<in> set ?uks. ?c k = None}" by (simp add: keywordsToFetch_filter)
  qed
  have look: "keywordCache st1 k = Some v \<longleftrightarrow>
                (k, v) \<in> set ?ps \<or> (k \<notin> fst ` set ?ps \<and> ?c k = Some v)" for k v
    unfolding c1 map_add_Some_iff map_of_eq_Some_iff [OF dist]
    by (simp add: map_of_eq_None_iff)
  have new: "set ids = set (cachedIdsOf st keywords) \<union> snd ` set ?ps"
    unfolding ids storeResponses_ids set_uniqueValues
    by (simp add: case_prod_unfold comp_def image_image)
  have old: "set (cachedIdsOf st keywords) = {v. \<exists>k \<in> set ?uks. ?c k = Some v}"
    unfolding cachedIdsOf_filter by (rule set_cached_values)
  have "set (cachedIdsOf st1 keywords) = {v. \<exists>k \<in> set ?uks. keywordCache st1 k = Some v}"
    unfolding cachedIdsOf_filter by (rule set_cached_values)
  also have "\<dots> = {v. \<exists>k \<in> set ?uks. ?c k = Some v} \<union> snd ` set ?ps"
    using look keys by (rule merged_cache_values)
  finally show ?thesis unfolding new old .
qed

text \<open>
  That a second call with the same phrases never issues a network call does not hold for
  a phrase whose search returned no result: only a reply with a result is stored, so
  such a phrase is looked up again. Here the same phrase is resolved twice against a
  server that has no match, and the request is sent twice.
\<close>

theorem second_call_refetches_counterexample:
  "snd (getKeywordIds sample_tmdb_config unmatched_keyword_server initial_state [''zzz''] ''en-US'') = Inr [] \<and>
   requests (fst (getKeywordIds sample_tmdb_config unmatched_keyword_server initial_state [''zzz''] ''en-US''))
     = [''https://tmdb.example/3/search/keyword?query=zzz&page=1&api_key=key&language=en-US''] \<and>
   requests (fst (getKeywordIds sample_tmdb_config unmatched_keyword_server
       (fst (getKeywordIds sample_tmdb_config unmatched_keyword_server initial_state [''zzz''] ''en-US''))
       [''zzz''] ''en-US''))
     = [''https://tmdb.example/3/search/keyword?query=zzz&page=1&api_key=key&language=en-US'',
        ''https://tmdb.example/3/search/keyword?query=zzz&page=1&api_key=key&language=en-US'']"
  by code_simp

text \<open>
  Claim C3, amended. After a first call that returned, a second call with the same phrases
  issues one request for each normalized phrase whose search returned no result in the
  first call, in the order of the batch, and no other request; the ids that the cache
  now holds for the phrases are the ids the first call returned. When every phrase
  resolved, the second call issues no request at all.
\<close>

theorem second_call_fetches_only_unmatched:
  assumes "getKeywordIds cfg srv st keywords language = (st1, Inr ids)"
  shows "requests (fst (getKeywordIds cfg srv st1 keywords language2)) =
           requests st1 @
           map (\<lambda>k. finalUrl cfg (keywordEndpoint k) (Some language2))
             (unmatchedKeywords (snd (keywordOutcomes cfg srv st keywords language))
                (keywordsToFetch st keywords)) \<and>
         set (cachedIdsOf st1 keywords) = set ids"
proof -
  note u = first_call_leaves_unmatched [OF assms]
  have r: "requests (fst (getKeywordIds cfg srv st1 keywords language2)) =
           requests st1 @
           map (\<lambda>k. finalUrl cfg (keywordEndpoint k) (Some language2)) (keywordsToFetch st1 keywords)"
    by (rule getKeywordIds_requests)
  from r cached_ids_after_first_call [OF assms] show ?thesis unfolding u by simp
qed

theorem second_call_fetches_only_unmatched_witness:
  "snd (getKeywordIds sample_tmdb_config sample_keyword_server initial_state
          [''Time Travel'', ''zzz''] ''en-US'') = Inr [4379] \<and>
   requests (fst (getKeywordIds sample_tmdb_config sample_keyword_server
       (fst (getKeywordIds sample_tmdb_config sample_keyword_server initial_state
               [''Time Travel'', ''zzz''] ''en-US''))
       [''Time Travel'', ''zzz''] ''en-US''))
   = requests (fst (getKeywordIds sample_tmdb_config sample_keyword_server initial_state
               [''Time Travel'', ''zzz''] ''en-US'')) @
     [''https://tmdb.example/3/search/keyword?query=zzz&page=1&api_key=key&language=en-US'']"
proof -
  let ?g = "getKeywordIds sample_tmdb_config sample_keyword_server initial_state
          [''Time Travel'', ''zzz''] ''en-US''"
  have s: "snd ?g = Inr [4379]" by code_simp
  then have g: "?g = (fst ?g, Inr [4379])" by (simp add: prod_eq_iff)
  have u: "map (\<lambda>k. finalUrl sample_tmdb_config (keywordEndpoint k) (Some ''en-US''))
             (unmatchedKeywords
                (snd (keywordOutcomes sample_tmdb_config sample_keyword_server initial_state
                        [''Time Travel'', ''zzz''] ''en-US''))
                (keywordsToFetch initial_state [''Time Travel'', ''zzz'']))
           = [''https://tmdb.example/3/search/keyword?query=zzz&page=1&api_key=key&language=en-US'']"
    by code_simp
  from second_call_fetches_only_unmatched [OF g, of "''en-US''"] u s show ?thesis by simp
qed

section \<open>The genre list\<close>

lemma genre_list_url_is_genre_call:
  "isGenreListCall cfg type (finalUrl cfg (''genre/'' @ mediaTypeString type @ ''/list'') language)"
  by (simp add: isGenreListCall_def finalUrl_def Let_def)

lemma other_endpoint_not_genre_call:
  "c \<noteq> CHR ''g'' \<Longrightarrow> \<not> isGenreListCall cfg type (finalUrl cfg (c # rest) language)"
  by (simp add: isGenreListCall_def finalUrl_def Let_def)

lemma other_genre_list_not_genre_call:
  "type' \<noteq> type \<Longrightarrow>
     \<not> isGenreListCall cfg type (finalUrl cfg (''genre/'' @ mediaTypeString type' @ ''/list'') language)"
  by (cases type; cases type') (simp_all add: isGenreListCall_def finalUrl_def Let_def mediaTypeString_def)

lemma fetch_keeps_genre_calls:
  assumes "\<not> isGenreListCall cfg type (finalUrl cfg endpoint language)"
  shows "genreListCalls cfg type (fst (fetchFromTMDb cfg srv st endpoint language)) = genreListCalls cfg type st \<and>
         genreCache (fst (fetchFromTMDb cfg srv st endpoint language)) = genreCache st"
proof -
  obtain st' r where f: "fetchFromTMDb cfg srv st endpoint language = (st', r)"
    by (cases "fetchFromTMDb cfg srv st endpoint language")
  from fetchFromTMDb_state [OF f] assms f show ?thesis
    by (simp add: genreListCalls_def)
qed

lemma fetch_other_endpoint:
  assumes "c \<noteq> CHR ''g''"
  shows "genreListCalls cfg type (fst (fetchFromTMDb cfg srv st (c # rest) language)) = genreListCalls cfg type st"
    and "genreCache (fst (fetchFromTMDb cfg srv st (c # rest) language)) = genreCache st"
  using fetch_keeps_genre_calls [OF other_endpoint_not_genre_call [OF assms]] by blast+

lemma fst_case_result:
  "fst (case p of (s, Inl e) \<Rightarrow> (s, A e) | (s, Inr d) \<Rightarrow> (s, B d)) = fst p"
  by (cases p; cases "snd p") auto

lemma discoverEndpoint_head:
  "\<exists>rest. discoverEndpoint type genreIds keywordIds page sortOption year = CHR ''d'' # rest"
  by (simp add: discoverEndpoint_def Let_def split: option.splits)

lemma keyword_urls_not_genre_calls:
  "filter (isGenreListCall cfg type)
     (map (\<lambda>k. finalUrl cfg (keywordEndpoint k) (Some language)) ks) = []"
  by (induction ks) (simp_all add: keywordEndpoint_def other_endpoint_not_genre_call)

lemma getKeywordIds_genreCache:
  "genreCache (fst (getKeywordIds cfg srv st keywords language)) = genreCache st"
proof (cases "keywordsToFetch st keywords = []")
  case True
  then show ?thesis by (simp add: getKeywordIds_no_fetch)
next
  case False
  then have kw: "keywords \<noteq> []" by (auto simp: keywordsToFetch_Nil)
  obtain st1 outcomes where ko: "keywordOutcomes cfg srv st keywords language = (st1, outcomes)"
    by (cases "keywordOutcomes cfg srv st keywords language")
  from keywordOutcomes_state [OF ko] False kw ko show ?thesis
    by (auto simp: getKeywordIds_def split: sum.splits prod.splits)
qed

lemma perform_keeps_filled_genre_cache:
  assumes "genreCache st type \<noteq> []"
  shows "genreCache (perform cfg net st c) type = genreCache st type \<and>
         genreListCalls cfg type (perform cfg net st c) = genreListCalls cfg type st"
proof (cases c)
  case (SearchMedia query page language)
  then show ?thesis
    by (cases "query = []")
       (simp_all add: searchMedia_def fst_case_result fetch_other_endpoint)
next
  case (GetTrending page language)
  then show ?thesis
    by (simp add: getTrending_def fst_case_result fetch_other_endpoint)
next
  case (GetKeywordIds phrases language)
  then show ?thesis
    by (simp add: getKeywordIds_genreCache genreListCalls_def getKeywordIds_requests
          keyword_urls_not_genre_calls)
next
  case (GetGenreIds genreNames type' language)
  show ?thesis
  proof (cases "type' = type")
    case True
    with assms GetGenreIds show ?thesis
      by (simp add: getGenreIds_def getGenreList_def)
  next
    case False
    let ?f = "fetchFromTMDb cfg (genre_server net) st (''genre/'' @ mediaTypeString type' @ ''/list'') (Some language)"
    from fetch_keeps_genre_calls [OF other_genre_list_not_genre_call [OF False]]
    have "genreListCalls cfg type (fst ?f) = genreListCalls cfg type st" "genreCache (fst ?f) = genreCache st"
      by blast+
    then show ?thesis using GetGenreIds False
      by (cases ?f) (auto simp: getGenreIds_def getGenreList_def genreListCalls_def Let_def split: sum.splits)
  qed
next
  case (DiscoverMedia type' genreIds keywordIds page sortOption language year)
  obtain rest where d: "discoverEndpoint type' genreIds keywordIds page sortOption year = CHR ''d'' # rest"
    using discoverEndpoint_head by blast
  show ?thesis using DiscoverMedia d
    by (simp add: discoverMedia_def fst_case_result fetch_other_endpoint)
qed

lemma session_keeps_filled_genre_cache:
  "genreCache st type \<noteq> [] \<Longrightarrow>
     genreCache (session cfg net st cs) type = genreCache st type \<and>
     genreListCalls cfg type (session cfg net st cs) = genreListCalls cfg type st"
proof (induction cs arbitrary: st)
  case Nil
  show ?case by simp
next
  case (Cons c cs)
  from perform_keeps_filled_genre_cache [OF Cons.prems, of cfg net c]
  have p: "genreCache (perform cfg net st c) type = genreCache st type"
    and q: "genreListCalls cfg type (perform cfg net st c) = genreListCalls cfg type st"
    by simp_all
  from p Cons.prems have "genreCache (perform cfg net st c) type \<noteq> []" by simp
  from Cons.IH [OF this] p q show ?case by simp
qed

lemma getGenreList_fills_cache:
  assumes "getGenreList cfg srv st type language = (st1, Inr gs)"
  shows "genreCache st1 type = gs \<and>
         (requests st1 = requests st \<or>
          requests st1 = requests st @ [finalUrl cfg (''genre/'' @ mediaTypeString type @ ''/list'') (Some language)])"
proof (cases "genreCache st type \<noteq> []")
  case True
  with assms show ?thesis by (auto simp: getGenreList_def)
next
  case False
  let ?f = "fetchFromTMDb cfg srv st (''genre/'' @ mediaTypeString type @ ''/list'') (Some language)"
  obtain st' r where f: "?f = (st', r)" by (cases ?f)
  from False assms f obtain data where r: "r = Inr data" and gs: "gs = genres data"
    and st1: "st1 = st'\<lparr> genreCache := (genreCache st')(type := genres data) \<rparr>"
    by (cases r) (auto simp: getGenreList_def)
  from fetchFromTMDb_state [OF f] st1 gs show ?thesis by simp
qed

lemma getGenreList_requests:
  "requests (fst (getGenreList cfg srv st type language)) =
     (if genreCache st type \<noteq> [] then requests st
      else requests st @ [finalUrl cfg (''genre/'' @ mediaTypeString type @ ''/list'') (Some language)])"
proof (cases "genreCache st type \<noteq> []")
  case True
  then show ?thesis by (simp add: getGenreList_def)
next
  case False
  let ?f = "fetchFromTMDb cfg srv st (''genre/'' @ mediaTypeString type @ ''/list'') (Some language)"
  obtain st' r where f: "?f = (st', r)" by (cases ?f)
  from fetchFromTMDb_state [OF f] False f show ?thesis
    by (cases r) (simp_all add: getGenreList_def)
qed

lemma getGenreList_failed:
  assumes "getGenreList cfg srv st type language = (st1, Inl e)"
  shows "genreCache st type = [] \<and> genreCache st1 = genreCache st"
proof (cases "genreCache st type \<noteq> []")
  case True
  with assms show ?thesis by (simp add: getGenreList_def)
next
  case False
  let ?f = "fetchFromTMDb cfg srv st (''genre/'' @ mediaTypeString type @ ''/list'') (Some language)"
  obtain st' r where f: "?f = (st', r)" by (cases ?f)
  from False assms f have "st1 = st'"
    by (cases r) (auto simp: getGenreList_def)
  with fetchFromTMDb_state [OF f] False show ?thesis by simp
qed

lemma getGenreIds_requests:
  "genreNames \<noteq> [] \<Longrightarrow>
     requests (fst (getGenreIds cfg srv st genreNames type language)) =
     requests (fst (getGenreList cfg srv st type language))"
  by (cases "getGenreList cfg srv st type language"; cases "snd (getGenreList cfg srv st type language)")
     (simp_all add: getGenreIds_def Let_def)

text \<open>
  That a category sees at most one genre-list call does not hold when the fetch fails,
  nor when the list that arrives is empty: in both cases the cache entry stays empty and
  the next lookup for the category fetches again. Here two lookups for movies, against a
  server that rejects and against a server that sends an empty list, leave two
  genre-list calls in the log.
\<close>

theorem genre_list_refetched_counterexample:
  "genreListCalls sample_tmdb_config Movie
     (session sample_tmdb_config (sample_servers failing_genre_server) initial_state
        [GetGenreIds [''Drama''] Movie ''en-US'', GetGenreIds [''Comedy''] Movie ''en-US''])
   = [''https://tmdb.example/3/genre/movie/list?api_key=key&language=en-US'',
      ''https://tmdb.example/3/genre/movie/list?api_key=key&language=en-US''] \<and>
   genreListCalls sample_tmdb_config Movie
     (session sample_tmdb_config (sample_servers empty_genre_server) initial_state
        [GetGenreIds [''Drama''] Movie ''en-US'', GetGenreIds [''Comedy''] Movie ''en-US''])
   = [''https://tmdb.example/3/genre/movie/list?api_key=key&language=en-US'',
      ''https://tmdb.example/3/genre/movie/list?api_key=key&language=en-US'']"
  by code_simp

text \<open>
  Claim C4, amended. Every call of \<open>getGenreList\<close> issues at most one request, the
  genre-list request of its category. When the call fails, nothing is cached: the genre
  cache is what it was, the entry of the category is still empty, and the next
  \<open>getGenreList\<close> or \<open>getGenreIds\<close> (with a name to look up) for that category issues the
  genre-list request again. When the call has returned a list that is not empty, the
  cache holds that list and no later call of the service, whatever names, categories and
  languages are queried, issues a genre-list request for that category again.
\<close>

theorem genre_list_fetching:
  "(requests (fst (getGenreList cfg (genre_server net) st type language)) = requests st \<or>
    requests (fst (getGenreList cfg (genre_server net) st type language)) =
      requests st @ [finalUrl cfg (''genre/'' @ mediaTypeString type @ ''/list'') (Some language)]) \<and>
   (getGenreList cfg (genre_server net) st type language = (st1, Inl e) \<longrightarrow>
      genreCache st1 = genreCache st \<and> genreCache st1 type = [] \<and>
      genreListCalls cfg type (fst (getGenreList cfg (genre_server net) st1 type language2)) =
        genreListCalls cfg type st1 @
        [finalUrl cfg (''genre/'' @ mediaTypeString type @ ''/list'') (Some language2)] \<and>
      (genreNames \<noteq> [] \<longrightarrow>
         genreListCalls cfg type (fst (getGenreIds cfg (genre_server net) st1 genreNames type language2)) =
           genreListCalls cfg type st1 @
           [finalUrl cfg (''genre/'' @ mediaTypeString type @ ''/list'') (Some language2)])) \<and>
   (getGenreList cfg (genre_server net) st type language = (st2, Inr gs) \<and> gs \<noteq> [] \<longrightarrow>
      genreCache st2 type = gs \<and>
      length (requests st2) \<le> length (requests st) + 1 \<and>
      genreListCalls cfg type (session cfg net st2 calls) = genreListCalls cfg type st2)"
proof (intro conjI impI)
  show "requests (fst (getGenreList cfg (genre_server net) st type language)) = requests st \<or>
    requests (fst (getGenreList cfg (genre_server net) st type language)) =
      requests st @ [finalUrl cfg (''genre/'' @ mediaTypeString type @ ''/list'') (Some language)]"
    by (simp add: getGenreList_requests)
next
  assume f: "getGenreList cfg (genre_server net) st type language = (st1, Inl e)"
  from getGenreList_failed [OF f]
  show "genreCache st1 = genreCache st" and empty: "genreCache st1 type = []" by simp_all
  let ?url = "finalUrl cfg (''genre/'' @ mediaTypeString type @ ''/list'') (Some language2)"
  have u: "isGenreListCall cfg type ?url" by (rule genre_list_url_is_genre_call)
  have r: "requests (fst (getGenreList cfg (genre_server net) st1 type language2)) = requests st1 @ [?url]"
    unfolding getGenreList_requests using empty by simp
  show again: "genreListCalls cfg type (fst (getGenreList cfg (genre_server net) st1 type language2)) =
        genreListCalls cfg type st1 @ [?url]"
    unfolding genreListCalls_def r using u by (simp only: filter_append filter.simps if_True)
  assume "genreNames \<noteq> []"
  then have "requests (fst (getGenreIds cfg (genre_server net) st1 genreNames type language2)) =
               requests (fst (getGenreList cfg (genre_server net) st1 type language2))"
    by (rule getGenreIds_requests)
  then show "genreListCalls cfg type (fst (getGenreIds cfg (genre_server net) st1 genreNames type language2)) =
           genreListCalls cfg type st1 @ [?url]"
    using again by (simp add: genreListCalls_def)
next
  assume a: "getGenreList cfg (genre_server net) st type language = (st2, Inr gs) \<and> gs \<noteq> []"
  from getGenreList_fills_cache [of cfg "genre_server net" st type language st2 gs] a
  have c: "genreCache st2 type = gs" and l: "length (requests st2) \<le> length (requests st) + 1"
    by auto
  from c a have "genreCache st2 type \<noteq> []" by simp
  from session_keeps_filled_genre_cache [OF this, of cfg net calls]
  have s: "genreListCalls cfg type (session cfg net st2 calls) = genreListCalls cfg type st2" by simp
  from c show "genreCache st2 type = gs" .
  from l show "length (requests st2) \<le> length (requests st) + 1" .
  from s show "genreListCalls cfg type (session cfg net st2 calls) = genreListCalls cfg type st2" .
qed

theorem genre_list_fetching_witness:
  "snd (getGenreList sample_tmdb_config (genre_server (sample_servers sample_genre_server))
          initial_state Movie ''en-US'') = Inr sample_genres \<and>
   sample_genres \<noteq> [] \<and>
   genreListCalls sample_tmdb_config Movie
     (session sample_tmdb_config (sample_servers sample_genre_server)
        (fst (getGenreList sample_tmdb_config (genre_server (sample_servers sample_genre_server))
                initial_state Movie ''en-US''))
        [GetGenreIds [''drama''] Movie ''en-US'', GetKeywordIds [''zzz''] ''en-US'',
         GetGenreIds ['' SCI-FI'', ''Western''] Movie ''fr-FR''])
   = [''https://tmdb.example/3/genre/movie/list?api_key=key&language=en-US''] \<and>
   snd (getGenreList sample_tmdb_config (genre_server (sample_servers failing_genre_server))
          initial_state Movie ''en-US'') = Inl (FailedToFetch ''genre/movie/list'') \<and>
   genreListCalls sample_tmdb_config Movie
     (fst (getGenreIds sample_tmdb_config (genre_server (sample_servers failing_genre_server))
             (fst (getGenreList sample_tmdb_config (genre_server (sample_servers failing_genre_server))
                     initial_state Movie ''en-US''))
             [''Drama''] Movie ''fr-FR''))
   = [''https://tmdb.example/3/genre/movie/list?api_key=key&language=en-US'',
      ''https://tmdb.example/3/genre/movie/list?api_key=key&language=fr-FR'']"
proof -
  let ?g = "getGenreList sample_tmdb_config (genre_server (sample_servers sample_genre_server))
              initial_state Movie ''en-US''"
  let ?f = "getGenreList sample_tmdb_config (genre_server (sample_servers failing_genre_server))
              initial_state Movie ''en-US''"
  let ?calls = "[GetGenreIds [''drama''] Movie ''en-US'', GetKeywordIds [''zzz''] ''en-US'',
         GetGenreIds ['' SCI-FI'', ''Western''] Movie ''fr-FR'']"
  have s: "snd ?g = Inr sample_genres" by code_simp
  then have g: "?g = (fst ?g, Inr sample_genres)" by (simp add: prod_eq_iff)
  have n: "sample_genres \<noteq> []" by simp
  have c: "genreListCalls sample_tmdb_config Movie (fst ?g)
             = [''https://tmdb.example/3/genre/movie/list?api_key=key&language=en-US'']"
    by code_simp
  from genre_list_fetching
         [where cfg = sample_tmdb_config and net = "sample_servers sample_genre_server"
            and st = initial_state and type = Movie and language = "''en-US''"
            and ?st2.0 = "fst ?g" and gs = sample_genres and calls = ?calls] g n
  have "genreListCalls sample_tmdb_config Movie
          (session sample_tmdb_config (sample_servers sample_genre_server) (fst ?g) ?calls)
        = genreListCalls sample_tmdb_config Movie (fst ?g)"
    by blast
  with c have filled: "genreListCalls sample_tmdb_config Movie
          (session sample_tmdb_config (sample_servers sample_genre_server) (fst ?g) ?calls)
        = [''https://tmdb.example/3/genre/movie/list?api_key=key&language=en-US'']"
    by (simp only:)
  have t: "snd ?f = Inl (FailedToFetch ''genre/movie/list'')" by code_simp
  then have f: "?f = (fst ?f, Inl (FailedToFetch ''genre/movie/list''))" by (simp add: prod_eq_iff)
  have d: "genreListCalls sample_tmdb_config Movie (fst ?f) @
             [finalUrl sample_tmdb_config (''genre/'' @ mediaTypeString Movie @ ''/list'') (Some ''fr-FR'')]
           = [''https://tmdb.example/3/genre/movie/list?api_key=key&language=en-US'',
              ''https://tmdb.example/3/genre/movie/list?api_key=key&language=fr-FR'']"
    by code_simp
  have m: "[''Drama''] \<noteq> []" by simp
  from genre_list_fetching
         [where cfg = sample_tmdb_config and net = "sample_servers failing_genre_server"
            and st = initial_state and type = Movie and language = "''en-US''"
            and ?st1.0 = "fst ?f" and e = "FailedToFetch ''genre/movie/list''"
            and genreNames = "[''Drama'']" and ?language2.0 = "''fr-FR''"] f m
  have "genreListCalls sample_tmdb_config Movie
     (fst (getGenreIds sample_tmdb_config (genre_server (sample_servers failing_genre_server))
             (fst ?f) [''Drama''] Movie ''fr-FR''))
     = genreListCalls sample_tmdb_config Movie (fst ?f) @
       [finalUrl sample_tmdb_config (''genre/'' @ mediaTypeString Movie @ ''/list'') (Some ''fr-FR'')]"
    by blast
  with d have again: "genreListCalls sample_tmdb_config Movie
     (fst (getGenreIds sample_tmdb_config (genre_server (sample_servers failing_genre_server))
             (fst ?f) [''Drama''] Movie ''fr-FR''))
     = [''https://tmdb.example/3/genre/movie/list?api_key=key&language=en-US'',
        ''https://tmdb.example/3/genre/movie/list?api_key=key&language=fr-FR'']"
    by (simp only:)
  from s n filled t again show ?thesis by blast
qed

section \<open>The sort order of a discovery request\<close>

lemma discoverEndpoint_shape:
  "\<exists>rest. discoverEndpoint t genreIds keywordIds page sortOption year =
     ''discover/'' @ mediaTypeString t @ ''?sort_by='' @
     getSortByValue (sortOrDefault sortOption) t @ ''&page='' @ rest"
  by (simp add: discoverEndpoint_def Let_def split: option.splits)

lemma discoverMedia_requests:
  assumes "genreIds \<noteq> [] \<or> keywordIds \<noteq> [] \<or> (year \<noteq> None \<and> year \<noteq> Some 0)"
  shows "requests (fst (discoverMedia cfg srv st t genreIds keywordIds page sortOption language year)) =
           requests st @ [finalUrl cfg (discoverEndpoint t genreIds keywordIds page sortOption year) (Some language)]"
proof -
  let ?e = "discoverEndpoint t genreIds keywordIds page sortOption year"
  obtain st' r where f: "fetchFromTMDb cfg srv st ?e (Some language) = (st', r)"
    by (cases "fetchFromTMDb cfg srv st ?e (Some language)")
  from assms have ng: "\<not> (genreIds = [] \<and> keywordIds = [] \<and> noYear year)"
    by (auto simp: noYear_def split: option.splits)
  have "fst (discoverMedia cfg srv st t genreIds keywordIds page sortOption language year) =
          fst (fetchFromTMDb cfg srv st ?e (Some language))"
    unfolding discoverMedia_def if_not_P [OF ng] by (rule fst_case_result)
  also have "\<dots> = st'" using f by simp
  finally show ?thesis using fetchFromTMDb_state [OF f] by simp
qed

lemma discover_request_sort:
  assumes "genreIds \<noteq> [] \<or> keywordIds \<noteq> [] \<or> (year \<noteq> None \<and> year \<noteq> Some 0)"
  shows "\<exists>rest. requests (fst (discoverMedia cfg srv st t genreIds keywordIds page sortOption language year)) =
           requests st @
           [TMDB_API_BASE_URL cfg @ ''/discover/'' @ mediaTypeString t @ ''?sort_by='' @
            getSortByValue (sortOrDefault sortOption) t @ ''&page='' @ rest]"
proof -
  obtain rest where e: "discoverEndpoint t genreIds keywordIds page sortOption year =
     ''discover/'' @ mediaTypeString t @ ''?sort_by='' @
     getSortByValue (sortOrDefault sortOption) t @ ''&page='' @ rest"
    using discoverEndpoint_shape by blast
  show ?thesis
    unfolding discoverMedia_requests [OF assms] e
    by (simp add: finalUrl_def Let_def)
qed

text \<open>
  Claim C7. The sort mapping of a discovery request: \<open>popularity\<close> gives
  \<open>popularity.desc\<close>, \<open>rating\<close> gives \<open>vote_average.desc\<close>, \<open>release_date\<close> gives
  \<open>primary_release_date.desc\<close> for a movie and \<open>first_air_date.desc\<close> for a TV show, and
  every other option gives \<open>popularity.desc\<close>. The mapped value is what the request
  carries: whenever \<open>discoverMedia\<close> goes to the network, the one URL it adds to the log
  starts with the base URL, \<open>/discover/<category>?sort_by=\<close>, the mapped value of the
  sort option and \<open>&page=\<close>; without a sort option the value is \<open>popularity.desc\<close>, and the
  whole call is the call with \<open>popularity\<close>.
\<close>

theorem sort_mapping:
  "getSortByValue ''popularity'' t = ''popularity.desc'' \<and>
   getSortByValue ''rating'' t = ''vote_average.desc'' \<and>
   getSortByValue ''release_date'' Movie = ''primary_release_date.desc'' \<and>
   getSortByValue ''release_date'' Tv = ''first_air_date.desc'' \<and>
   (s \<noteq> ''release_date'' \<and> s \<noteq> ''rating'' \<longrightarrow> getSortByValue s t = ''popularity.desc'') \<and>
   discoverMedia cfg srv st t genreIds keywordIds page None language year =
     discoverMedia cfg srv st t genreIds keywordIds page (Some ''popularity'') language year \<and>
   (genreIds \<noteq> [] \<or> keywordIds \<noteq> [] \<or> (year \<noteq> None \<and> year \<noteq> Some 0) \<longrightarrow>
      (\<exists>rest. requests (fst (discoverMedia cfg srv st t genreIds keywordIds page (Some s) language year)) =
         requests st @
         [TMDB_API_BASE_URL cfg @ ''/discover/'' @ mediaTypeString t @ ''?sort_by='' @
          getSortByValue s t @ ''&page='' @ rest]) \<and>
      (\<exists>rest. requests (fst (discoverMedia cfg srv st t genreIds keywordIds page None language year)) =
         requests st @
         [TMDB_API_BASE_URL cfg @ ''/discover/'' @ mediaTypeString t @
          ''?sort_by=popularity.desc&page='' @ rest]))"
proof -
  have table: "getSortByValue ''popularity'' t = ''popularity.desc'' \<and>
   getSortByValue ''rating'' t = ''vote_average.desc'' \<and>
   getSortByValue ''release_date'' Movie = ''primary_release_date.desc'' \<and>
   getSortByValue ''release_date'' Tv = ''first_air_date.desc'' \<and>
   (s \<noteq> ''release_date'' \<and> s \<noteq> ''rating'' \<longrightarrow> getSortByValue s t = ''popularity.desc'')"
    by (simp add: getSortByValue_def)
  have same: "discoverMedia cfg srv st t genreIds keywordIds page None language year =
     discoverMedia cfg srv st t genreIds keywordIds page (Some ''popularity'') language year"
    by (simp add: discoverMedia_def discoverEndpoint_def sortOrDefault_def)
  have req: "(\<exists>rest. requests (fst (discoverMedia cfg srv st t genreIds keywordIds page (Some s) language year)) =
         requests st @
         [TMDB_API_BASE_URL cfg @ ''/discover/'' @ mediaTypeString t @ ''?sort_by='' @
          getSortByValue s t @ ''&page='' @ rest]) \<and>
      (\<exists>rest. requests (fst (discoverMedia cfg srv st t genreIds keywordIds page None language year)) =
         requests st @
         [TMDB_API_BASE_URL cfg @ ''/discover/'' @ mediaTypeString t @
          ''?sort_by=popularity.desc&page='' @ rest])"
    if h: "genreIds \<noteq> [] \<or> keywordIds \<noteq> [] \<or> (year \<noteq> None \<and> year \<noteq> Some 0)"
    using discover_request_sort [OF h, of cfg srv st t page "Some s" language]
          discover_request_sort [OF h, of cfg srv st t page None language]
    by (simp add: sortOrDefault_def getSortByValue_def)
  from table same req show ?thesis by blast
qed

theorem sort_mapping_witness:
  "''newest'' \<noteq> ''release_date'' \<and> ''newest'' \<noteq> ''rating'' \<and>
   getSortByValue ''newest'' Tv = ''popularity.desc'' \<and>
   (\<exists>rest. requests (fst (discoverMedia sample_tmdb_config sample_media_server initial_state Tv
                              [18] [] None (Some ''newest'') ''en-US'' None)) =
      requests initial_state @
      [TMDB_API_BASE_URL sample_tmdb_config @ ''/discover/'' @ mediaTypeString Tv @ ''?sort_by='' @
       ''popularity.desc'' @ ''&page='' @ rest]) \<and>
   requests (fst (discoverMedia sample_tmdb_config sample_media_server initial_state Tv
                    [18] [] None (Some ''release_date'') ''en-US'' None)) =
     [''https://tmdb.example/3/discover/tv?sort_by=first_air_date.desc&page=1&include_adult=false&with_genres=18&api_key=key&language=en-US''] \<and>
   requests (fst (discoverMedia sample_tmdb_config sample_media_server initial_state Movie
                    [18] [] None None ''en-US'' None)) =
     [''https://tmdb.example/3/discover/movie?sort_by=popularity.desc&page=1&include_adult=false&with_genres=18&api_key=key&language=en-US'']"
proof -
  have h: "[18 :: int] \<noteq> [] \<or> ([] :: int list) \<noteq> [] \<or> ((None :: int option) \<noteq> None \<and> (None :: int option) \<noteq> Some 0)"
    by simp
  have a: "requests (fst (discoverMedia sample_tmdb_config sample_media_server initial_state Tv
                    [18] [] None (Some ''release_date'') ''en-US'' None)) =
     [''https://tmdb.example/3/discover/tv?sort_by=first_air_date.desc&page=1&include_adult=false&with_genres=18&api_key=key&language=en-US'']"
    by code_simp
  have b: "requests (fst (discoverMedia sample_tmdb_config sample_media_server initial_state Movie
                    [18] [] None None ''en-US'' None)) =
     [''https://tmdb.example/3/discover/movie?sort_by=popularity.desc&page=1&include_adult=false&with_genres=18&api_key=key&language=en-US'']"
    by code_simp
  from sort_mapping [of Tv "''newest''" sample_tmdb_config sample_media_server initial_state
                        "[18]" "[]" None "''en-US''" None] h
  have "''newest'' \<noteq> ''release_date'' \<and> ''newest'' \<noteq> ''rating'' \<and>
   getSortByValue ''newest'' Tv = ''popularity.desc'' \<and>
   (\<exists>rest. requests (fst (discoverMedia sample_tmdb_config sample_media_server initial_state Tv
                              [18] [] None (Some ''newest'') ''en-US'' None)) =
      requests initial_state @
      [TMDB_API_BASE_URL sample_tmdb_config @ ''/discover/'' @ mediaTypeString Tv @ ''?sort_by='' @
       ''popularity.desc'' @ ''&page='' @ rest])"
    by auto
  with a b show ?thesis by blast
qed

end
